theory Spec2Isabelle
  imports Complex_Main "HOL-Library.Word"
begin

section \<open>Strings of the platform\<close>

text \<open>
  A JavaScript string is a sequence of 16-bit code units. Literals of the source that are
  plain ASCII are written \<open>js ''...''\<close>; the few others are spelled out as code units.
\<close>

type_synonym jsstring = "16 word list"

definition js :: "string \<Rightarrow> jsstring" where
  "js s = map of_char s"

text \<open>\<open>String.prototype.startsWith\<close> and the matching test at the end of a string.\<close>

definition startsWith :: "jsstring \<Rightarrow> jsstring \<Rightarrow> bool" where
  "startsWith s p = (take (length p) s = p)"

definition endsWith :: "jsstring \<Rightarrow> jsstring \<Rightarrow> bool" where
  "endsWith s p = (length p \<le> length s \<and> drop (length s - length p) s = p)"

text \<open>
  \<open>String.prototype.trim\<close> removes the code points of WhiteSpace and LineTerminator
  (ECMAScript: TAB, VT, FF, SP, NBSP, ZWNBSP, the space separators; LF, CR, LS, PS) from
  both ends. All of them are single code units.
\<close>

definition isWhiteSpace :: "16 word \<Rightarrow> bool" where
  "isWhiteSpace c =
     (c = 0x09 \<or> c = 0x0A \<or> c = 0x0B \<or> c = 0x0C \<or> c = 0x0D \<or> c = 0x20 \<or> c = 0xA0
      \<or> c = 0x1680 \<or> (0x2000 \<le> c \<and> c \<le> 0x200A) \<or> c = 0x2028 \<or> c = 0x2029
      \<or> c = 0x202F \<or> c = 0x205F \<or> c = 0x3000 \<or> c = 0xFEFF)"

definition trim :: "jsstring \<Rightarrow> jsstring" where
  "trim s = rev (dropWhile isWhiteSpace (rev (dropWhile isWhiteSpace s)))"

text \<open>The three backticks of a Markdown fence, and a line feed.\<close>

definition fence :: jsstring where
  "fence = [0x60, 0x60, 0x60]"

definition LF :: jsstring where
  "LF = [0x0A]"

text \<open>
  \<open>s.replace(/^```(?:json)?\n?/, "")\<close>: the pattern is anchored at the start, every
  optional part is greedy and nothing after it can fail, so the match is the fence, then
  \<open>json\<close> if it is there, then one line feed if it is there.
\<close>

definition stripOpeningFence :: "jsstring \<Rightarrow> jsstring" where
  "stripOpeningFence s =
     (if startsWith s fence then
        (let r1 = drop 3 s;
             r2 = (if startsWith r1 (js ''json'') then drop 4 r1 else r1)
         in if startsWith r2 LF then drop 1 r2 else r2)
      else s)"

text \<open>
  \<open>s.replace(/\n?```$/, "")\<close>: without the multiline flag \<open>$\<close> is the end of the
  input, so the only matches are the last three code units, or the last four when a line
  feed stands before them; the search goes left to right and finds the longer one first.
\<close>

definition stripClosingFence :: "jsstring \<Rightarrow> jsstring" where
  "stripClosingFence s =
     (if endsWith s (LF @ fence) then take (length s - 4) s
      else if endsWith s fence then take (length s - 3) s
      else s)"

section \<open>JSON values\<close>

text \<open>
  The values \<open>JSON.parse\<close> produces. Numbers are left abstract (\<open>'n\<close>): the program
  only tests \<open>typeof\<close> on them and prints them. An object holds its own properties as
  an association list read with \<open>map_of\<close>.
\<close>

datatype 'n json =
    JNull
  | JBool bool
  | JNumber 'n
  | JString jsstring
  | JArray "'n json list"
  | JObject "(jsstring \<times> 'n json) list"

text \<open>
  Reading a property \<open>v.k\<close> of a value that is not \<open>null\<close>: \<open>None\<close> is
  \<open>undefined\<close>. The program reads only the keys \<open>summary\<close>, \<open>comments\<close>,
  \<open>file\<close>, \<open>line\<close>, \<open>body\<close> and \<open>severity\<close>, which no prototype of a parsed
  value defines, so only an object's own properties answer. Reading a property of
  \<open>null\<close> throws a TypeError; the callers below test for \<open>JNull\<close> first.
\<close>

fun getProp :: "'n json \<Rightarrow> jsstring \<Rightarrow> 'n json option" where
  "getProp (JObject kvs) k = map_of kvs k"
| "getProp _ k = None"

fun isStringV :: "'n json option \<Rightarrow> bool" where
  "isStringV (Some (JString s)) = True"
| "isStringV _ = False"

fun isNumberV :: "'n json option \<Rightarrow> bool" where
  "isNumberV (Some (JNumber n)) = True"
| "isNumberV _ = False"

section \<open>The platform's JSON decoder\<close>

text \<open>
  \<open>JSON.parse\<close> is not code of this program; the parser takes it as the parameter
  \<open>decode\<close>. To run the parser on concrete texts, here is a decoder for the JSON
  grammar (ECMA-404): white space is SP, TAB, LF and CR; a string has no raw control
  character and the escapes \<open>\" \\ \/ \b \f \n \r \t \uXXXX\<close>; a number is
  \<open>-? (0 | [1-9][0-9]*) (. [0-9]+)? ([eE] [+-]? [0-9]+)?\<close>, kept at its exact decimal
  value; of two members with the same key the later one is read (the members are held
  latest first). The tests \<open>length _ < length s\<close> always hold: they are there for the
  termination proof.
\<close>

definition isJsonWs :: "16 word \<Rightarrow> bool" where
  "isJsonWs c = (c = 0x20 \<or> c = 0x09 \<or> c = 0x0A \<or> c = 0x0D)"

definition skipWs :: "jsstring \<Rightarrow> jsstring" where
  "skipWs s = dropWhile isJsonWs s"

definition isDigit :: "16 word \<Rightarrow> bool" where
  "isDigit c = (0x30 \<le> c \<and> c \<le> 0x39)"

definition hexDigit :: "16 word \<Rightarrow> 16 word option" where
  "hexDigit c =
     (if 0x30 \<le> c \<and> c \<le> 0x39 then Some (c - 0x30)
      else if 0x41 \<le> c \<and> c \<le> 0x46 then Some (c - 0x41 + 10)
      else if 0x61 \<le> c \<and> c \<le> 0x66 then Some (c - 0x61 + 10)
      else None)"

definition escapeChar :: "16 word \<Rightarrow> 16 word option" where
  "escapeChar e =
     (if e = 0x22 \<or> e = 0x5C \<or> e = 0x2F then Some e
      else if e = 0x62 then Some 0x08
      else if e = 0x66 then Some 0x0C
      else if e = 0x6E then Some 0x0A
      else if e = 0x72 then Some 0x0D
      else if e = 0x74 then Some 0x09
      else None)"

fun parseStringBody :: "jsstring \<Rightarrow> (jsstring \<times> jsstring) option" where
  "parseStringBody [] = None"
| "parseStringBody [c] = (if c = 0x22 then Some ([], []) else None)"
| "parseStringBody (c # e # cs) =
     (if c = 0x22 then Some ([], e # cs)
      else if c = 0x5C then
        (if e = 0x75 then
           (case cs of
              h1 # h2 # h3 # h4 # rest \<Rightarrow>
                (case (hexDigit h1, hexDigit h2, hexDigit h3, hexDigit h4) of
                   (Some d1, Some d2, Some d3, Some d4) \<Rightarrow>
                     map_option (\<lambda>(str, r). ((((d1 * 16 + d2) * 16 + d3) * 16 + d4) # str, r))
                       (parseStringBody rest)
                 | _ \<Rightarrow> None)
            | _ \<Rightarrow> None)
         else
           (case escapeChar e of
              Some u \<Rightarrow> map_option (\<lambda>(str, r). (u # str, r)) (parseStringBody cs)
            | None \<Rightarrow> None))
      else if c < 0x20 then None
      else map_option (\<lambda>(str, r). (c # str, r)) (parseStringBody (e # cs)))"

definition digitsValue :: "jsstring \<Rightarrow> nat" where
  "digitsValue ds = foldl (\<lambda>acc d. 10 * acc + unat (d - 0x30)) 0 ds"

definition parseNumber :: "jsstring \<Rightarrow> (rat \<times> jsstring) option" where
  "parseNumber s =
     (let (neg, s1) = (case s of c # cs \<Rightarrow> if c = 0x2D then (True, cs) else (False, s) | [] \<Rightarrow> (False, s));
          ints = (case s1 of c # cs \<Rightarrow> if c = 0x30 then [c] else takeWhile isDigit s1 | [] \<Rightarrow> []);
          s2 = drop (length ints) s1
      in if ints = [] then None
         else
           (case (case s2 of
                    c # cs \<Rightarrow>
                      if c = 0x2E then
                        (let fs = takeWhile isDigit cs
                         in if fs = [] then None else Some (fs, drop (length fs) cs))
                      else Some ([], s2)
                  | [] \<Rightarrow> Some ([], s2)) of
              None \<Rightarrow> None
            | Some (fracs, s3) \<Rightarrow>
               (case (case s3 of
                        c # cs \<Rightarrow>
                          if c = 0x65 \<or> c = 0x45 then
                            (let (eneg, cs1) = (case cs of
                                                  d # ds \<Rightarrow> if d = 0x2D then (True, ds)
                                                            else if d = 0x2B then (False, ds)
                                                            else (False, cs)
                                                | [] \<Rightarrow> (False, cs));
                                 es = takeWhile isDigit cs1
                             in if es = [] then None
                                else Some ((if eneg then - int (digitsValue es) else int (digitsValue es)),
                                           drop (length es) cs1))
                          else Some (0, s3)
                      | [] \<Rightarrow> Some (0, s3)) of
                  None \<Rightarrow> None
                | Some (ex, s4) \<Rightarrow>
                    (let m = of_nat (digitsValue (ints @ fracs)) :: rat;
                         e = ex - int (length fracs);
                         v = (if 0 \<le> e then m * 10 ^ nat e else m / 10 ^ nat (- e))
                     in Some (if neg then - v else v, s4)))))"

function parseValue :: "jsstring \<Rightarrow> (rat json \<times> jsstring) option"
  and parseElements :: "jsstring \<Rightarrow> rat json list \<Rightarrow> (rat json \<times> jsstring) option"
  and parseMembers :: "jsstring \<Rightarrow> (jsstring \<times> rat json) list \<Rightarrow> (rat json \<times> jsstring) option"
where
  "parseValue s =
     (case skipWs s of
        [] \<Rightarrow> None
      | c # cs \<Rightarrow>
          if c = 0x22 then map_option (\<lambda>(str, r). (JString str, r)) (parseStringBody cs)
          else if c = 0x7B then
            (case skipWs cs of
               [] \<Rightarrow> None
             | d # ds \<Rightarrow> if d = 0x7D then Some (JObject [], ds)
                         else if length cs < length s then parseMembers cs [] else None)
          else if c = 0x5B then
            (case skipWs cs of
               [] \<Rightarrow> None
             | d # ds \<Rightarrow> if d = 0x5D then Some (JArray [], ds)
                         else if length cs < length s then parseElements cs [] else None)
          else if startsWith (c # cs) (js ''true'') then Some (JBool True, drop 4 (c # cs))
          else if startsWith (c # cs) (js ''false'') then Some (JBool False, drop 5 (c # cs))
          else if startsWith (c # cs) (js ''null'') then Some (JNull, drop 4 (c # cs))
          else map_option (\<lambda>(n, r). (JNumber n, r)) (parseNumber (c # cs)))"
| "parseElements s acc =
     (case parseValue s of
        None \<Rightarrow> None
      | Some (v, r) \<Rightarrow>
          (case skipWs r of
             [] \<Rightarrow> None
           | c # cs \<Rightarrow>
               if c = 0x2C then
                 (if length cs < length s then parseElements cs (acc @ [v]) else None)
               else if c = 0x5D then Some (JArray (acc @ [v]), cs)
               else None))"
| "parseMembers s acc =
     (case skipWs s of
        [] \<Rightarrow> None
      | q # ks \<Rightarrow>
          if q = 0x22 then
            (case parseStringBody ks of
               None \<Rightarrow> None
             | Some (k, r) \<Rightarrow>
                 (case skipWs r of
                    [] \<Rightarrow> None
                  | c # cs \<Rightarrow>
                      if c = 0x3A \<and> length cs < length s then
                        (case parseValue cs of
                           None \<Rightarrow> None
                         | Some (v, r2) \<Rightarrow>
                             (case skipWs r2 of
                                [] \<Rightarrow> None
                              | d # ds \<Rightarrow>
                                  if d = 0x2C then
                                    (if length ds < length s then parseMembers ds ((k, v) # acc)
                                     else None)
                                  else if d = 0x7D then Some (JObject ((k, v) # acc), ds)
                                  else None))
                      else None))
          else None)"
  by pat_completeness auto
termination
  by (relation "measure (\<lambda>x. case x of
        Inl s \<Rightarrow> 2 * length s
      | Inr (Inl (s, acc)) \<Rightarrow> 2 * length s + 1
      | Inr (Inr (s, acc)) \<Rightarrow> 2 * length s + 1)") auto

definition JSON_parse :: "jsstring \<Rightarrow> rat json option" where
  "JSON_parse s =
     (case parseValue s of
        None \<Rightarrow> None
      | Some (v, r) \<Rightarrow> if skipWs r = [] then Some v else None)"

section \<open>The review result and its parser (reviewer.ts)\<close>

record 'n ReviewComment =
  "file" :: jsstring
  line :: 'n
  body :: jsstring
  severity :: jsstring

record 'n ReviewResult =
  summary :: jsstring
  comments :: "'n ReviewComment list"

text \<open>
  The predicate of \<open>comments.filter\<close>. On a \<open>null\<close> element \<open>c.file\<close> throws, which
  is \<open>None\<close> here.
\<close>

fun keepComment :: "'n json \<Rightarrow> bool option" where
  "keepComment JNull = None"
| "keepComment c =
     Some (isStringV (getProp c (js ''file'')) \<and> isNumberV (getProp c (js ''line''))
           \<and> isStringV (getProp c (js ''body'')))"

text \<open>\<open>Array.prototype.filter\<close> with that predicate: the first throw ends the call.\<close>

fun filterComments :: "'n json list \<Rightarrow> 'n json list option" where
  "filterComments [] = Some []"
| "filterComments (c # cs) =
     (case keepComment c of
        None \<Rightarrow> None
      | Some keep \<Rightarrow>
          (case filterComments cs of
             None \<Rightarrow> None
           | Some kept \<Rightarrow> Some (if keep then c # kept else kept)))"

text \<open>\<open>["info", "warning", "critical"].includes(c.severity) ? c.severity : "info"\<close>\<close>

fun normalizeSeverity :: "'n json option \<Rightarrow> jsstring" where
  "normalizeSeverity (Some (JString s)) =
     (if s \<in> set [js ''info'', js ''warning'', js ''critical''] then s else js ''info'')"
| "normalizeSeverity _ = js ''info''"

text \<open>
  The function of \<open>.map\<close>, applied to the elements the filter kept. The last equation is
  never reached on them.
\<close>

fun toComment :: "'n json \<Rightarrow> 'n ReviewComment option" where
  "toComment c =
     (case (getProp c (js ''file''), getProp c (js ''line''), getProp c (js ''body'')) of
        (Some (JString f), Some (JNumber n), Some (JString b)) \<Rightarrow>
          Some \<lparr>file = f, line = n, body = b,
                severity = normalizeSeverity (getProp c (js ''severity''))\<rparr>
      | _ \<Rightarrow> None)"

text \<open>
  The body of the \<open>try\<close> block once \<open>JSON.parse\<close> has returned \<open>parsed\<close>; \<open>None\<close>
  is any throw (the explicit one for a missing summary, or a TypeError).
\<close>

definition ofParsed :: "'n json \<Rightarrow> 'n ReviewResult option" where
  "ofParsed parsed =
     (case parsed of
        JNull \<Rightarrow> None
      | _ \<Rightarrow>
        (case getProp parsed (js ''summary'') of
           Some (JString s) \<Rightarrow>
             (let cs = (case getProp parsed (js ''comments'') of
                          Some (JArray xs) \<Rightarrow> xs
                        | _ \<Rightarrow> [])
              in case filterComments cs of
                   None \<Rightarrow> None
                 | Some kept \<Rightarrow> Some \<lparr>summary = s, comments = List.map_filter toComment kept\<rparr>)
         | _ \<Rightarrow> None))"

text \<open>The text handed to \<open>JSON.parse\<close>.\<close>

definition cleanedOf :: "jsstring \<Rightarrow> jsstring" where
  "cleanedOf content =
     (let cleaned = trim content
      in if startsWith cleaned fence then stripClosingFence (stripOpeningFence cleaned)
         else cleaned)"

text \<open>
  \<open>parseReviewResponse\<close>. The decoder \<open>JSON.parse\<close> is the parameter \<open>decode\<close>
  (\<open>None\<close> when it throws); the \<open>catch\<close> block returns the content it was given,
  not the cleaned text.
\<close>

definition parseReviewResponse :: "(jsstring \<Rightarrow> 'n json option) \<Rightarrow> jsstring \<Rightarrow> 'n ReviewResult" where
  "parseReviewResponse decode content =
     (case Option.bind (decode (cleanedOf content)) ofParsed of
        Some r \<Rightarrow> r
      | None \<Rightarrow> \<lparr>summary = content, comments = []\<rparr>)"

section \<open>The trigger gate (webhook.ts)\<close>

text \<open>
  The \<open>id\<close> of a user is \<open>user_id\<close> here and that of a diff version
  \<open>version_id\<close>, since \<open>id\<close> is the identity function of HOL.
\<close>

record GitLabUser =
  user_id :: int
  name :: jsstring
  username :: jsstring

record ReviewerIdsChange =
  previous :: "int list option"
  current :: "int list option"

text \<open>
  The fields of the webhook payload the program reads, those of \<open>object_attributes\<close>
  and of \<open>project\<close> side by side with the others (\<open>project_id\<close> is
  \<open>project.id\<close>, \<open>reviewer_ids_change\<close> is \<open>changes.reviewer_ids\<close>).
  \<open>reviewers\<close>, \<open>changes\<close> and \<open>changes.reviewer_ids\<close> are read with \<open>?.\<close>,
  and the two id lists with \<open>?? []\<close>, so each may be missing (\<open>None\<close>).
  \<open>draft\<close> and \<open>work_in_progress\<close> are read for their truthiness. Ids are
  integers.
\<close>

record MergeRequestWebhookPayload =
  object_kind :: jsstring
  action :: jsstring
  draft :: bool
  work_in_progress :: bool
  iid :: int
  title :: jsstring
  description :: jsstring
  url :: jsstring
  source_branch :: jsstring
  target_branch :: jsstring
  project_id :: int
  project_http_url :: jsstring
  project_path_with_namespace :: jsstring
  reviewers :: "GitLabUser list option"
  reviewer_ids_change :: "ReviewerIdsChange option"

record Config =
  gitlabUrl :: jsstring
  gitlabToken :: jsstring
  gitlabBotUsername :: jsstring
  gitlabWebhookSecret :: "jsstring option"
  githubToken :: jsstring
  copilotModel :: jsstring
  logLevel :: jsstring

text \<open>\<open>!secret\<close> holds for a missing secret and for the empty string.\<close>

definition verifyWebhookToken :: "jsstring option \<Rightarrow> jsstring option \<Rightarrow> bool" where
  "verifyWebhookToken headerToken secret =
     (if secret = None \<or> secret = Some [] then True else headerToken = secret)"

definition orEmpty :: "int list option \<Rightarrow> int list" where
  "orEmpty xs = (case xs of None \<Rightarrow> [] | Some ys \<Rightarrow> ys)"

definition shouldTriggerReview :: "MergeRequestWebhookPayload \<Rightarrow> Config \<Rightarrow> bool" where
  "shouldTriggerReview payload config =
     (if object_kind payload \<noteq> js ''merge_request'' then False
      else if action payload \<noteq> js ''update'' then False
      else if draft payload \<or> work_in_progress payload then False
      else
        (case Option.bind (reviewers payload)
                (find (\<lambda>r. username r = gitlabBotUsername config)) of
           None \<Rightarrow> False
         | Some botUser \<Rightarrow>
             (case reviewer_ids_change payload of
                Some reviewerChanges \<Rightarrow>
                  (let previousIds = orEmpty (previous reviewerChanges);
                       currentIds = orEmpty (current reviewerChanges);
                       wasAlreadyReviewer = (user_id botUser \<in> set previousIds);
                       isNowReviewer = (user_id botUser \<in> set currentIds)
                   in if wasAlreadyReviewer \<or> \<not> isNowReviewer then False else True)
              | None \<Rightarrow> True)))"

section \<open>Diff versions, positions and the collaborators' calls (types.ts)\<close>

record DiffFile =
  old_path :: jsstring
  new_path :: jsstring
  diff :: jsstring
  new_file :: bool
  renamed_file :: bool
  deleted_file :: bool
  too_large :: bool
  collapsed :: bool

record MergeRequestDiffVersion =
  version_id :: int
  head_commit_sha :: jsstring
  base_commit_sha :: jsstring
  start_commit_sha :: jsstring

record MergeRequestDiffVersionDetail = MergeRequestDiffVersion +
  diffs :: "DiffFile list"

text \<open>\<open>position_type\<close> is the constant \<open>"text"\<close> and is left out.\<close>

record 'n DiffPosition =
  base_sha :: jsstring
  head_sha :: jsstring
  start_sha :: jsstring
  position_old_path :: jsstring
  position_new_path :: jsstring
  new_line :: "'n option"
  old_line :: "'n option"

text \<open>
  What a run does to the world outside: the requests of the GitLab client, the steps of
  the clone, and the calls to the Copilot SDK. A run appends each call to its log.
\<close>

datatype 'n call =
    GetVersions int int
  | GetVersionDetail int int int
  | PostNote int int jsstring
  | PostDiscussion int int jsstring "'n DiffPosition"
  | Mkdtemp
  | GitClone jsstring jsstring jsstring
  | Rm jsstring
  | CreateSession jsstring jsstring
  | SendAndWait jsstring
  | DestroySession
  | StopClient

text \<open>
  The world answers each call; its answer may depend on everything the run has done so
  far (the log). A thrown error is its message: \<open>Inl msg\<close>, or \<open>Some msg\<close> for a call
  whose value is not used. \<open>authUrl\<close> is \<open>buildAuthUrl\<close>, whose \<open>new URL\<close> throws
  on a malformed address. \<open>sendAnswer\<close> gives \<open>response?.data?.content\<close>, which may
  be missing.
\<close>

record 'n world =
  versionsAnswer :: "'n call list \<Rightarrow> int \<Rightarrow> int \<Rightarrow> jsstring + MergeRequestDiffVersion list"
  detailAnswer :: "'n call list \<Rightarrow> int \<Rightarrow> int \<Rightarrow> int \<Rightarrow> jsstring + MergeRequestDiffVersionDetail"
  postAnswer :: "'n call list \<Rightarrow> 'n call \<Rightarrow> jsstring option"
  mkdtempAnswer :: "'n call list \<Rightarrow> jsstring + jsstring"
  authUrl :: "jsstring \<Rightarrow> jsstring \<Rightarrow> jsstring + jsstring"
  gitCloneAnswer :: "'n call list \<Rightarrow> 'n call \<Rightarrow> jsstring option"
  rmAnswer :: "'n call list \<Rightarrow> jsstring \<Rightarrow> jsstring option"
  createSessionAnswer :: "'n call list \<Rightarrow> jsstring option"
  sendAnswer :: "'n call list \<Rightarrow> jsstring \<Rightarrow> jsstring + jsstring option"
  destroyAnswer :: "'n call list \<Rightarrow> jsstring option"
  stopAnswer :: "'n call list \<Rightarrow> jsstring option"

section \<open>Numbers as text\<close>

text \<open>
  A template literal prints an array length or an integer id in decimal (exact for
  magnitudes below \<open>10^21\<close>, where JavaScript switches to exponent notation). How a
  JSON number prints is the parameter \<open>numToString\<close> of the functions that need it.
\<close>

function natToString :: "nat \<Rightarrow> jsstring" where
  "natToString n =
     (if n < 10 then [0x30 + of_nat n]
      else natToString (n div 10) @ [0x30 + of_nat (n mod 10)])"
  by pat_completeness auto
termination
  by (relation "measure (\<lambda>n. n)") auto

definition intToString :: "int \<Rightarrow> jsstring" where
  "intToString i = (if i < 0 then js ''-'' @ natToString (nat (- i)) else natToString (nat i))"

definition joinWith :: "jsstring \<Rightarrow> jsstring list \<Rightarrow> jsstring" where
  "joinWith sep xs = (case xs of [] \<Rightarrow> [] | y # ys \<Rightarrow> foldl (\<lambda>acc z. acc @ sep @ z) y ys)"

text \<open>
  \<open>String.prototype.toUpperCase\<close> on the letters a to z; that is all of it on ASCII
  text, and a severity is one of three ASCII words.
\<close>

definition toUpperCase :: "jsstring \<Rightarrow> jsstring" where
  "toUpperCase s = map (\<lambda>c. if 0x61 \<le> c \<and> c \<le> 0x7A then c - 0x20 else c) s"

text \<open>The code units of the source's literals that are not ASCII.\<close>

definition tick :: jsstring where "tick = [0x60]"
definition enDash :: jsstring where "enDash = [0x2013]"
definition emDash :: jsstring where "emDash = [0x2014]"
definition rightArrow :: jsstring where "rightArrow = [0x2192]"
definition robotFace :: jsstring where "robotFace = [0xD83E, 0xDD16]"
definition redCircle :: jsstring where "redCircle = [0xD83D, 0xDD34]"
definition yellowCircle :: jsstring where "yellowCircle = [0xD83D, 0xDFE1]"
definition infoSign :: jsstring where "infoSign = [0x2139, 0xFE0F]"

section \<open>The GitLab client (gitlab-client.ts)\<close>

definition getMergeRequestVersions ::
  "'n world \<Rightarrow> int \<Rightarrow> int \<Rightarrow> 'n call list
     \<Rightarrow> (jsstring + MergeRequestDiffVersion list) \<times> 'n call list" where
  "getMergeRequestVersions w projectId mrIid lg =
     (versionsAnswer w lg projectId mrIid, lg @ [GetVersions projectId mrIid])"

definition getMergeRequestVersionDetail ::
  "'n world \<Rightarrow> int \<Rightarrow> int \<Rightarrow> int \<Rightarrow> 'n call list
     \<Rightarrow> (jsstring + MergeRequestDiffVersionDetail) \<times> 'n call list" where
  "getMergeRequestVersionDetail w projectId mrIid versionId lg =
     (detailAnswer w lg projectId mrIid versionId,
      lg @ [GetVersionDetail projectId mrIid versionId])"

definition getLatestDiffs ::
  "'n world \<Rightarrow> int \<Rightarrow> int \<Rightarrow> 'n call list
     \<Rightarrow> (jsstring + MergeRequestDiffVersionDetail) \<times> 'n call list" where
  "getLatestDiffs w projectId mrIid lg =
     (case getMergeRequestVersions w projectId mrIid lg of
        (Inl e, lg1) \<Rightarrow> (Inl e, lg1)
      | (Inr versions, lg1) \<Rightarrow>
          (case versions of
             [] \<Rightarrow> (Inl (js ''No diff versions found for MR !'' @ intToString mrIid), lg1)
           | latest # _ \<Rightarrow>
               getMergeRequestVersionDetail w projectId mrIid (version_id latest) lg1))"

definition postMergeRequestNote ::
  "'n world \<Rightarrow> int \<Rightarrow> int \<Rightarrow> jsstring \<Rightarrow> 'n call list \<Rightarrow> jsstring option \<times> 'n call list" where
  "postMergeRequestNote w projectId mrIid text lg =
     (postAnswer w lg (PostNote projectId mrIid text), lg @ [PostNote projectId mrIid text])"

definition postDiffDiscussion ::
  "'n world \<Rightarrow> int \<Rightarrow> int \<Rightarrow> jsstring \<Rightarrow> 'n DiffPosition \<Rightarrow> 'n call list
     \<Rightarrow> jsstring option \<times> 'n call list" where
  "postDiffDiscussion w projectId mrIid text position lg =
     (postAnswer w lg (PostDiscussion projectId mrIid text position),
      lg @ [PostDiscussion projectId mrIid text position])"

text \<open>The text of the general note of a comment: \<open>**file:line** - body\<close>, with an en dash.\<close>

definition generalNoteText :: "('n \<Rightarrow> jsstring) \<Rightarrow> 'n ReviewComment \<Rightarrow> jsstring" where
  "generalNoteText numToString comment =
     js ''**'' @ file comment @ js '':'' @ numToString (line comment) @ js ''** '' @ enDash
       @ js '' '' @ body comment"

definition severityIcon :: "'n ReviewComment \<Rightarrow> jsstring" where
  "severityIcon comment =
     (if severity comment = js ''critical'' then redCircle
      else if severity comment = js ''warning'' then yellowCircle
      else infoSign)"

definition discussionText :: "'n ReviewComment \<Rightarrow> jsstring" where
  "discussionText comment =
     severityIcon comment @ js '' **'' @ toUpperCase (severity comment) @ js ''**: ''
       @ body comment"

definition findDiffFile :: "MergeRequestDiffVersionDetail \<Rightarrow> 'n ReviewComment \<Rightarrow> DiffFile option" where
  "findDiffFile diffVersion comment =
     find (\<lambda>d. new_path d = file comment \<or> old_path d = file comment) (diffs diffVersion)"

definition positionOf ::
  "MergeRequestDiffVersionDetail \<Rightarrow> DiffFile \<Rightarrow> 'n ReviewComment \<Rightarrow> 'n DiffPosition" where
  "positionOf diffVersion diffFile comment =
     \<lparr>base_sha = base_commit_sha diffVersion,
      head_sha = head_commit_sha diffVersion,
      start_sha = start_commit_sha diffVersion,
      position_old_path = old_path diffFile,
      position_new_path = new_path diffFile,
      new_line = Some (line comment),
      old_line = None\<rparr>"

record PostingOutcome =
  posted :: int
  failed :: int

text \<open>
  The \<open>try\<close> block of one turn of the loop of \<open>postReview\<close>: the one post it makes, and
  what that post answered (\<open>Some msg\<close> when it threw).
\<close>

definition tryPost ::
  "'n world \<Rightarrow> ('n \<Rightarrow> jsstring) \<Rightarrow> int \<Rightarrow> int \<Rightarrow> MergeRequestDiffVersionDetail
     \<Rightarrow> 'n ReviewComment \<Rightarrow> 'n call list \<Rightarrow> jsstring option \<times> 'n call list" where
  "tryPost w numToString projectId mrIid diffVersion comment lg =
     (case findDiffFile diffVersion comment of
        None \<Rightarrow> postMergeRequestNote w projectId mrIid (generalNoteText numToString comment) lg
      | Some diffFile \<Rightarrow>
          postDiffDiscussion w projectId mrIid (discussionText comment)
            (positionOf diffVersion diffFile comment) lg)"

text \<open>The call that \<open>tryPost\<close> makes for a comment.\<close>

definition attemptOf ::
  "('n \<Rightarrow> jsstring) \<Rightarrow> int \<Rightarrow> int \<Rightarrow> MergeRequestDiffVersionDetail \<Rightarrow> 'n ReviewComment
     \<Rightarrow> 'n call" where
  "attemptOf numToString projectId mrIid diffVersion comment =
     (case findDiffFile diffVersion comment of
        None \<Rightarrow> PostNote projectId mrIid (generalNoteText numToString comment)
      | Some diffFile \<Rightarrow>
          PostDiscussion projectId mrIid (discussionText comment)
            (positionOf diffVersion diffFile comment))"

text \<open>
  One turn of the loop, with its \<open>catch\<close>: \<open>failed++\<close>, then the fallback note, and
  \<open>posted++; failed--\<close> when that note went through.
\<close>

definition postComment ::
  "'n world \<Rightarrow> ('n \<Rightarrow> jsstring) \<Rightarrow> int \<Rightarrow> int \<Rightarrow> MergeRequestDiffVersionDetail
     \<Rightarrow> PostingOutcome \<times> 'n call list \<Rightarrow> 'n ReviewComment \<Rightarrow> PostingOutcome \<times> 'n call list" where
  "postComment w numToString projectId mrIid diffVersion st comment =
     (case st of (counts, lg) \<Rightarrow>
        (case tryPost w numToString projectId mrIid diffVersion comment lg of
           (None, lg1) \<Rightarrow> (counts\<lparr>posted := posted counts + 1\<rparr>, lg1)
         | (Some err, lg1) \<Rightarrow>
             (case postMergeRequestNote w projectId mrIid
                     (generalNoteText numToString comment) lg1 of
                (None, lg2) \<Rightarrow>
                  (counts\<lparr>posted := posted counts + 1, failed := failed counts + 1 - 1\<rparr>, lg2)
              | (Some err2, lg2) \<Rightarrow> (counts\<lparr>failed := failed counts + 1\<rparr>, lg2))))"

definition postComments ::
  "'n world \<Rightarrow> ('n \<Rightarrow> jsstring) \<Rightarrow> int \<Rightarrow> int \<Rightarrow> MergeRequestDiffVersionDetail
     \<Rightarrow> 'n ReviewComment list \<Rightarrow> 'n call list \<Rightarrow> PostingOutcome \<times> 'n call list" where
  "postComments w numToString projectId mrIid diffVersion cs lg =
     foldl (postComment w numToString projectId mrIid diffVersion)
       (\<lparr>posted = 0, failed = 0\<rparr>, lg) cs"

text \<open>
  \<open>postReview\<close>: the loop, then the summary note, outside of any \<open>try\<close>: when it throws,
  so does \<open>postReview\<close>, and no counts are returned.
\<close>

definition postReview ::
  "'n world \<Rightarrow> ('n \<Rightarrow> jsstring) \<Rightarrow> int \<Rightarrow> int \<Rightarrow> jsstring \<Rightarrow> 'n ReviewComment list
     \<Rightarrow> MergeRequestDiffVersionDetail \<Rightarrow> 'n call list
     \<Rightarrow> (jsstring + PostingOutcome) \<times> 'n call list" where
  "postReview w numToString projectId mrIid summaryText cs diffVersion lg =
     (case postComments w numToString projectId mrIid diffVersion cs lg of
        (counts, lg1) \<Rightarrow>
          (case postMergeRequestNote w projectId mrIid summaryText lg1 of
             (None, lg2) \<Rightarrow> (Inr counts, lg2)
           | (Some err, lg2) \<Rightarrow> (Inl err, lg2)))"

section \<open>The clone (git.ts)\<close>

text \<open>
  \<open>cloneRepository\<close> gives the directory of the clone; its \<open>cleanup\<close> removes that
  directory. When \<open>git clone\<close> fails the directory is removed (a failure of the removal
  is dropped by \<open>.catch\<close>) and the error is thrown again under a new message.
\<close>

definition cloneRepository ::
  "'n world \<Rightarrow> jsstring \<Rightarrow> jsstring \<Rightarrow> jsstring \<Rightarrow> 'n call list
     \<Rightarrow> (jsstring + jsstring) \<times> 'n call list" where
  "cloneRepository w gitHttpUrl branch token lg =
     (case mkdtempAnswer w lg of
        Inl e \<Rightarrow> (Inl e, lg @ [Mkdtemp])
      | Inr dir \<Rightarrow>
          (let lg1 = lg @ [Mkdtemp] in
           case authUrl w gitHttpUrl token of
             Inl e \<Rightarrow> (Inl e, lg1)
           | Inr authed \<Rightarrow>
               (case gitCloneAnswer w lg1 (GitClone branch authed dir) of
                  None \<Rightarrow> (Inr dir, lg1 @ [GitClone branch authed dir])
                | Some e \<Rightarrow>
                    (Inl (js ''Failed to clone repository: '' @ e),
                     lg1 @ [GitClone branch authed dir, Rm dir]))))"

definition cleanup :: "'n world \<Rightarrow> jsstring \<Rightarrow> 'n call list \<Rightarrow> jsstring option \<times> 'n call list" where
  "cleanup w dir lg = (rmAnswer w lg dir, lg @ [Rm dir])"

section \<open>The review (reviewer.ts)\<close>

definition fileSection :: "DiffFile \<Rightarrow> jsstring" where
  "fileSection d =
     (let status = (if new_file d then js ''(new file)''
                    else if deleted_file d then js ''(deleted)''
                    else if renamed_file d then js ''(renamed from '' @ old_path d @ js '')''
                    else [])
      in js ''### '' @ new_path d @ js '' '' @ status @ LF @ fence @ js ''diff'' @ LF @ diff d
           @ LF @ fence)"

definition buildDiffPrompt ::
  "jsstring \<Rightarrow> jsstring \<Rightarrow> jsstring \<Rightarrow> jsstring \<Rightarrow> jsstring \<Rightarrow> DiffFile list \<Rightarrow> jsstring" where
  "buildDiffPrompt mrTitle mrDescription mrUrl sourceBranch targetBranch ds =
     (let filesDiff =
            joinWith (LF @ LF)
              (map fileSection (filter (\<lambda>d. \<not> too_large d \<and> \<not> collapsed d) ds));
          skipped = filter (\<lambda>d. too_large d \<or> collapsed d) ds;
          skippedNote =
            (if length skipped > 0 then
               LF @ LF @ js ''> **Note**: '' @ natToString (length skipped)
                 @ js '' file(s) were too large to include in the diff. ''
                 @ js ''You can read them directly from the working directory: ''
                 @ joinWith (js '', '') (map new_path skipped)
             else [])
      in js ''# Merge Request: '' @ mrTitle @ LF
           @ js ''**Branch**: '' @ tick @ sourceBranch @ tick @ js '' '' @ rightArrow @ js '' ''
           @ tick @ targetBranch @ tick @ LF
           @ js ''**URL**: '' @ mrUrl @ LF @ LF
           @ js ''## Description'' @ LF
           @ (if mrDescription = [] then js ''(no description)'' else mrDescription) @ LF @ LF
           @ js ''## Changed Files ('' @ natToString (length ds) @ js '' file(s))'' @ LF @ LF
           @ filesDiff @ skippedNote @ LF @ LF
           @ js ''---'' @ LF @ LF
           @ js ''Please review the above changes. The full repository is available in your working directory ''
           @ emDash
           @ js '' read related source files, imports, tests, documentation, and configuration to understand context before producing your review.''
           @ LF @ LF
           @ js ''When done, output your review as JSON.'')"

record ReviewOptions =
  config :: Config
  repoDir :: jsstring
  mrTitle :: jsstring
  mrDescription :: jsstring
  mrUrl :: jsstring
  sourceBranch :: jsstring
  targetBranch :: jsstring
  diffVersion :: MergeRequestDiffVersionDetail

text \<open>
  The \<open>try\<close> block of \<open>reviewMergeRequest\<close>: create the session, send the prompt,
  destroy the session, stop the client, parse. \<open>Inl\<close> is the first throw.
\<close>

definition reviewSession ::
  "'n world \<Rightarrow> (jsstring \<Rightarrow> 'n json option) \<Rightarrow> ReviewOptions \<Rightarrow> 'n call list
     \<Rightarrow> (jsstring + 'n ReviewResult) \<times> 'n call list" where
  "reviewSession w decode opts lg =
     (let lg1 = lg @ [CreateSession (copilotModel (config opts)) (repoDir opts)] in
      case createSessionAnswer w lg of
        Some e \<Rightarrow> (Inl e, lg1)
      | None \<Rightarrow>
          (let userPrompt = buildDiffPrompt (mrTitle opts) (mrDescription opts) (mrUrl opts)
                              (sourceBranch opts) (targetBranch opts) (diffs (diffVersion opts));
               lg2 = lg1 @ [SendAndWait userPrompt] in
           case sendAnswer w lg1 userPrompt of
             Inl e \<Rightarrow> (Inl e, lg2)
           | Inr content \<Rightarrow>
               (let responseContent = (case content of None \<Rightarrow> [] | Some c \<Rightarrow> c);
                    lg3 = lg2 @ [DestroySession] in
                case destroyAnswer w lg2 of
                  Some e \<Rightarrow> (Inl e, lg3)
                | None \<Rightarrow>
                    (case stopAnswer w lg3 of
                       Some e \<Rightarrow> (Inl e, lg3 @ [StopClient])
                     | None \<Rightarrow>
                         (Inr (parseReviewResponse decode responseContent),
                          lg3 @ [StopClient])))))"

text \<open>Its \<open>catch\<close>: stop the client, whatever that answers, and throw the error again.\<close>

definition reviewMergeRequest ::
  "'n world \<Rightarrow> (jsstring \<Rightarrow> 'n json option) \<Rightarrow> ReviewOptions \<Rightarrow> 'n call list
     \<Rightarrow> (jsstring + 'n ReviewResult) \<times> 'n call list" where
  "reviewMergeRequest w decode opts lg =
     (case reviewSession w decode opts lg of
        (Inr review, lg1) \<Rightarrow> (Inr review, lg1)
      | (Inl e, lg1) \<Rightarrow> (Inl e, lg1 @ [StopClient]))"

section \<open>The handler (index.ts)\<close>

datatype response =
    ServerConfigurationError
  | Unauthorized
  | InvalidJSON
  | EventIgnored
  | NoDiffsToReview
  | ReviewPosted nat int int
  | ReviewFailed jsstring

fun statusCode :: "response \<Rightarrow> nat" where
  "statusCode ServerConfigurationError = 500"
| "statusCode Unauthorized = 401"
| "statusCode InvalidJSON = 400"
| "statusCode EventIgnored = 200"
| "statusCode NoDiffsToReview = 200"
| "statusCode (ReviewPosted n p f) = 200"
| "statusCode (ReviewFailed e) = 500"

definition noChangesNote :: jsstring where
  "noChangesNote = robotFace @ js '' **Copilot Review**: No file changes detected in this MR.''"

definition failureNote :: "jsstring \<Rightarrow> jsstring" where
  "failureNote message =
     robotFace @ js '' **Copilot Review**: Review failed with an error. Please check the Lambda logs.''
       @ LF @ LF @ fence @ LF @ message @ LF @ fence"

definition summaryBody :: "'n ReviewResult \<Rightarrow> jsstring" where
  "summaryBody review =
     js ''## '' @ robotFace @ js '' Copilot Code Review'' @ LF @ LF
       @ summary review @ LF @ LF
       @ js ''---'' @ LF
       @ js ''_'' @ natToString (length (comments review)) @ js '' inline comment(s) posted._''"

text \<open>
  The \<open>try\<close> block of the handler. It gives what the block returned or the message of
  what it threw, the clone if one was made (the variable \<open>clone\<close>), and the log.
\<close>

definition reviewRun ::
  "'n world \<Rightarrow> (jsstring \<Rightarrow> 'n json option) \<Rightarrow> ('n \<Rightarrow> jsstring) \<Rightarrow> Config
     \<Rightarrow> MergeRequestWebhookPayload \<Rightarrow> 'n call list
     \<Rightarrow> (jsstring + response) \<times> jsstring option \<times> 'n call list" where
  "reviewRun w decode numToString cfg payload lg =
     (let projectId = project_id payload; mrIid = iid payload in
      case getLatestDiffs w projectId mrIid lg of
        (Inl e, lg1) \<Rightarrow> (Inl e, None, lg1)
      | (Inr dv, lg1) \<Rightarrow>
          if length (diffs dv) = 0 then
            (case postMergeRequestNote w projectId mrIid noChangesNote lg1 of
               (Some e, lg2) \<Rightarrow> (Inl e, None, lg2)
             | (None, lg2) \<Rightarrow> (Inr NoDiffsToReview, None, lg2))
          else
            (case cloneRepository w (project_http_url payload) (source_branch payload)
                    (gitlabToken cfg) lg1 of
               (Inl e, lg2) \<Rightarrow> (Inl e, None, lg2)
             | (Inr dir, lg2) \<Rightarrow>
                 (case reviewMergeRequest w decode
                         \<lparr>config = cfg, repoDir = dir, mrTitle = title payload,
                          mrDescription = description payload, mrUrl = url payload,
                          sourceBranch = source_branch payload,
                          targetBranch = target_branch payload, diffVersion = dv\<rparr> lg2 of
                    (Inl e, lg3) \<Rightarrow> (Inl e, Some dir, lg3)
                  | (Inr review, lg3) \<Rightarrow>
                      (case postReview w numToString projectId mrIid (summaryBody review)
                              (comments review) dv lg3 of
                         (Inl e, lg4) \<Rightarrow> (Inl e, Some dir, lg4)
                       | (Inr counts, lg4) \<Rightarrow>
                           (Inr (ReviewPosted (length (comments review)) (posted counts)
                                   (failed counts)),
                            Some dir, lg4)))))"

text \<open>
  After the gate: the \<open>try\<close> block, the \<open>catch\<close> with its one notification (whose own
  failure is dropped), and the \<open>finally\<close> that cleans the clone up (a failure of that is
  only logged).
\<close>

definition reviewAndReport ::
  "'n world \<Rightarrow> (jsstring \<Rightarrow> 'n json option) \<Rightarrow> ('n \<Rightarrow> jsstring) \<Rightarrow> Config
     \<Rightarrow> MergeRequestWebhookPayload \<Rightarrow> response \<times> 'n call list" where
  "reviewAndReport w decode numToString cfg payload =
     (case reviewRun w decode numToString cfg payload [] of
        (result, clone, lg) \<Rightarrow>
          (let (resp, lg1) =
                 (case result of
                    Inr r \<Rightarrow> (r, lg)
                  | Inl e \<Rightarrow>
                      (ReviewFailed e,
                       snd (postMergeRequestNote w (project_id payload) (iid payload)
                              (failureNote e) lg)))
           in (resp, (case clone of None \<Rightarrow> lg1 | Some dir \<Rightarrow> snd (cleanup w dir lg1)))))"

text \<open>
  The handler: \<open>cfg\<close> is what \<open>loadConfig\<close> gave (\<open>None\<close> when it threw), \<open>payload\<close>
  what parsing the request body gave (\<open>None\<close> when it threw).
\<close>

definition handler ::
  "'n world \<Rightarrow> (jsstring \<Rightarrow> 'n json option) \<Rightarrow> ('n \<Rightarrow> jsstring) \<Rightarrow> Config option
     \<Rightarrow> jsstring option \<Rightarrow> MergeRequestWebhookPayload option \<Rightarrow> response \<times> 'n call list" where
  "handler w decode numToString cfg webhookToken payload =
     (case cfg of
        None \<Rightarrow> (ServerConfigurationError, [])
      | Some c \<Rightarrow>
          if \<not> verifyWebhookToken webhookToken (gitlabWebhookSecret c) then (Unauthorized, [])
          else
            (case payload of
               None \<Rightarrow> (InvalidJSON, [])
             | Some p \<Rightarrow>
                 if \<not> shouldTriggerReview p c then (EventIgnored, [])
                 else reviewAndReport w decode numToString c p))"

section \<open>Sample inputs\<close>

text \<open>
  Concrete inputs on which the theorems below are run: a diff version with the one file
  \<open>a.ts\<close>, three comments (two on that file, one on a file the diff does not have), and
  a world in which every call succeeds. \<open>failingWhen bad\<close> is that world with a post
  throwing \<open>boom\<close> whenever \<open>bad\<close> holds of the call. The numbers of the samples are
  integers, printed in decimal.
\<close>

definition decimalOfIntegral :: "rat \<Rightarrow> jsstring" where
  "decimalOfIntegral q = intToString \<lfloor>q\<rfloor>"

definition sampleFile :: DiffFile where
  "sampleFile =
     \<lparr>old_path = js ''a.ts'', new_path = js ''a.ts'', diff = js ''+x'', new_file = False,
      renamed_file = False, deleted_file = False, too_large = False, collapsed = False\<rparr>"

definition sampleVersion :: MergeRequestDiffVersion where
  "sampleVersion =
     \<lparr>version_id = 9, head_commit_sha = js ''h'', base_commit_sha = js ''b'',
      start_commit_sha = js ''s''\<rparr>"

definition sampleDiff :: MergeRequestDiffVersionDetail where
  "sampleDiff =
     \<lparr>version_id = 9, head_commit_sha = js ''h'', base_commit_sha = js ''b'',
      start_commit_sha = js ''s'', diffs = [sampleFile]\<rparr>"

definition emptyDiff :: MergeRequestDiffVersionDetail where
  "emptyDiff =
     \<lparr>version_id = 9, head_commit_sha = js ''h'', base_commit_sha = js ''b'',
      start_commit_sha = js ''s'', diffs = []\<rparr>"

definition okComment :: "rat ReviewComment" where
  "okComment = \<lparr>file = js ''a.ts'', line = 3, body = js ''fine'', severity = js ''info''\<rparr>"

definition failingComment :: "rat ReviewComment" where
  "failingComment =
     \<lparr>file = js ''a.ts'', line = 7, body = js ''bad'', severity = js ''critical''\<rparr>"


definition calmWorld :: "rat world" where
  "calmWorld =
     \<lparr>versionsAnswer = (\<lambda>lg p m. Inr [sampleVersion]),
      detailAnswer = (\<lambda>lg p m v. Inr sampleDiff),
      postAnswer = (\<lambda>lg c. None),
      mkdtempAnswer = (\<lambda>lg. Inr (js ''/tmp/gitlab-review-1'')),
      authUrl = (\<lambda>u t. Inr u),
      gitCloneAnswer = (\<lambda>lg c. None),
      rmAnswer = (\<lambda>lg d. None),
      createSessionAnswer = (\<lambda>lg. None),
      sendAnswer = (\<lambda>lg q. Inr (Some (js ''not json at all''))),
      destroyAnswer = (\<lambda>lg. None),
      stopAnswer = (\<lambda>lg. None)\<rparr>"

definition failingWhen :: "(rat call \<Rightarrow> bool) \<Rightarrow> rat world" where
  "failingWhen bad = calmWorld\<lparr>postAnswer := (\<lambda>lg c. if bad c then Some (js ''boom'') else None)\<rparr>"

fun isDiscussion :: "'n call \<Rightarrow> bool" where
  "isDiscussion (PostDiscussion p m t pos) = True"
| "isDiscussion c = False"

fun isNote :: "'n call \<Rightarrow> bool" where
  "isNote (PostNote p m t) = True"
| "isNote c = False"

fun isAssistantCall :: "'n call \<Rightarrow> bool" where
  "isAssistantCall (CreateSession model dir) = True"
| "isAssistantCall (SendAndWait q) = True"
| "isAssistantCall c = False"

text \<open>Three responses of the assistant, as JSON texts.\<close>

definition sampleOkJson :: jsstring where
  \<open>sampleOkJson = js ''{"summary":"ok","comments":[]}''\<close>

definition malformedLineJson :: jsstring where
  \<open>malformedLineJson =
     js ''{"summary":"x","comments":[{"file":"a.ts","line":"not-a-number","body":"b","severity":"critical"}]}''\<close>

definition nullCandidateJson :: jsstring where
  \<open>nullCandidateJson =
     js ''{"summary":"x","comments":[null,{"file":"a.ts","line":1,"body":"b","severity":"info"}]}''\<close>

definition samplePayload :: MergeRequestWebhookPayload where
  "samplePayload =
     \<lparr>object_kind = js ''merge_request'', action = js ''update'', draft = False,
      work_in_progress = False, iid = 2, title = js ''T'', description = [],
      url = js ''u'', source_branch = js ''feature'', target_branch = js ''main'',
      project_id = 1, project_http_url = js ''https://gitlab.example.com/g/p.git'',
      project_path_with_namespace = js ''g/p'',
      reviewers = Some [\<lparr>user_id = 5, name = js ''A'', username = js ''alice''\<rparr>,
                        \<lparr>user_id = 8, name = js ''Bot'', username = js ''copilot-reviewer''\<rparr>],
      reviewer_ids_change = Some \<lparr>previous = Some [5], current = Some [5, 8]\<rparr>\<rparr>"

definition sampleConfig :: Config where
  "sampleConfig =
     \<lparr>gitlabUrl = js ''https://gitlab.example.com'', gitlabToken = js ''t'',
      gitlabBotUsername = js ''copilot-reviewer'', gitlabWebhookSecret = Some (js ''secret''),
      githubToken = js ''g'', copilotModel = js ''gpt-4.1'', logLevel = js ''info''\<rparr>"

section \<open>Posting: the loop of postReview\<close>

lemma tryPost_attempt:
  "tryPost w nts p m dv c lg =
     (postAnswer w lg (attemptOf nts p m dv c), lg @ [attemptOf nts p m dv c])"
  by (simp add: tryPost_def attemptOf_def postMergeRequestNote_def postDiffDiscussion_def
           split: option.splits)

lemma postComment_cases:
  "postComment w nts p m dv (counts, lg) c =
     (let attempt = attemptOf nts p m dv c; note = PostNote p m (generalNoteText nts c) in
      if postAnswer w lg attempt = None then (counts\<lparr>posted := posted counts + 1\<rparr>, lg @ [attempt])
      else if postAnswer w (lg @ [attempt]) note = None
        then (counts\<lparr>posted := posted counts + 1\<rparr>, lg @ [attempt, note])
      else (counts\<lparr>failed := failed counts + 1\<rparr>, lg @ [attempt, note]))"
  by (auto simp: postComment_def tryPost_attempt postMergeRequestNote_def Let_def
           split: option.splits)

lemma postComment_step:
  "posted (fst (postComment w nts p m dv (counts, lg) c))
     + failed (fst (postComment w nts p m dv (counts, lg) c)) = posted counts + failed counts + 1
   \<and> posted counts \<le> posted (fst (postComment w nts p m dv (counts, lg) c))
   \<and> failed counts \<le> failed (fst (postComment w nts p m dv (counts, lg) c))"
  by (simp add: postComment_cases Let_def)

lemma foldl_postComment_counts:
  "posted (fst (foldl (postComment w nts p m dv) st cs))
     + failed (fst (foldl (postComment w nts p m dv) st cs))
     = posted (fst st) + failed (fst st) + int (length cs)
   \<and> posted (fst st) \<le> posted (fst (foldl (postComment w nts p m dv) st cs))
   \<and> failed (fst st) \<le> failed (fst (foldl (postComment w nts p m dv) st cs))"
proof (induction cs arbitrary: st)
  case Nil
  show ?case by simp
next
  case (Cons c cs)
  obtain counts lg where st: "st = (counts, lg)" by (cases st)
  from postComment_step [of w nts p m dv counts lg c] Cons.IH [of "postComment w nts p m dv st c"]
  show ?case unfolding st by simp
qed

lemma postComment_log:
  "\<exists>ext. snd (postComment w nts p m dv (counts, lg) c) = lg @ attemptOf nts p m dv c # ext"
  by (simp add: postComment_cases Let_def)

lemma foldl_postComment_log_prefix:
  "\<exists>ext. snd (foldl (postComment w nts p m dv) st cs) = snd st @ ext"
proof (induction cs arbitrary: st)
  case Nil
  show ?case by simp
next
  case (Cons c cs)
  obtain counts lg where st: "st = (counts, lg)" by (cases st)
  obtain e1 where e1: "snd (postComment w nts p m dv (counts, lg) c) = lg @ attemptOf nts p m dv c # e1"
    using postComment_log by blast
  obtain e2 where "snd (foldl (postComment w nts p m dv) (postComment w nts p m dv (counts, lg) c) cs)
      = snd (postComment w nts p m dv (counts, lg) c) @ e2"
    using Cons.IH by blast
  then show ?case unfolding st by (simp add: e1)
qed

lemma foldl_postComment_attempts:
  "c \<in> set cs \<Longrightarrow> attemptOf nts p m dv c \<in> set (snd (foldl (postComment w nts p m dv) st cs))"
proof (induction cs arbitrary: st)
  case Nil
  then show ?case by simp
next
  case (Cons x xs)
  obtain counts lg where st: "st = (counts, lg)" by (cases st)
  show ?case
  proof (cases "c = x")
    case True
    obtain e1 where e1: "snd (postComment w nts p m dv (counts, lg) x) = lg @ attemptOf nts p m dv x # e1"
      using postComment_log by blast
    obtain e2 where "snd (foldl (postComment w nts p m dv) (postComment w nts p m dv (counts, lg) x) xs)
        = snd (postComment w nts p m dv (counts, lg) x) @ e2"
      using foldl_postComment_log_prefix by blast
    then show ?thesis unfolding st using True by (simp add: e1)
  next
    case False
    with Cons.prems have "c \<in> set xs" by simp
    from Cons.IH [OF this] show ?thesis by simp
  qed
qed

lemma postReview_log:
  "snd (postReview w nts p m s cs dv lg) = snd (postComments w nts p m dv cs lg) @ [PostNote p m s]"
  by (simp add: postReview_def postMergeRequestNote_def split: prod.splits option.splits)

lemma postReview_result:
  "fst (postReview w nts p m s cs dv lg) =
     (case postAnswer w (snd (postComments w nts p m dv cs lg)) (PostNote p m s) of
        None \<Rightarrow> Inr (fst (postComments w nts p m dv cs lg))
      | Some e \<Rightarrow> Inl e)"
  by (simp add: postReview_def postMergeRequestNote_def split: prod.splits option.splits)


text \<open>
  C10. \<open>postReview\<close> returns counts exactly when its summary post succeeds. Whenever
  it returns counts, \<open>posted + failed\<close> is the number of comments and neither counter
  is negative; one turn of the loop adds one to exactly one of the two counters.
\<close>

theorem postReview_counts_total:
  "(postReview w nts p m s cs dv lg = (Inr out, lg')
      \<longrightarrow> posted out + failed out = int (length cs) \<and> 0 \<le> posted out \<and> 0 \<le> failed out)
   \<and> (let counts' = fst (postComment w nts p m dv (counts, lg0) c) in
        (posted counts' = posted counts + 1 \<and> failed counts' = failed counts)
        \<or> (posted counts' = posted counts \<and> failed counts' = failed counts + 1))
   \<and> (\<exists>r. fst (postReview w nts p m s cs dv lg) = Inr r)
       = (postAnswer w (snd (postComments w nts p m dv cs lg)) (PostNote p m s) = None)"
proof -
  have "posted out + failed out = int (length cs) \<and> 0 \<le> posted out \<and> 0 \<le> failed out"
    if "postReview w nts p m s cs dv lg = (Inr out, lg')"
  proof -
    from that have "out = fst (postComments w nts p m dv cs lg)"
      by (auto simp: postReview_def split: prod.splits option.splits)
    with foldl_postComment_counts [of w nts p m dv "(\<lparr>posted = 0, failed = 0\<rparr>, lg)" cs]
    show ?thesis by (simp add: postComments_def)
  qed
  moreover have "let counts' = fst (postComment w nts p m dv (counts, lg0) c) in
        (posted counts' = posted counts + 1 \<and> failed counts' = failed counts)
        \<or> (posted counts' = posted counts \<and> failed counts' = failed counts + 1)"
    by (simp add: postComment_cases Let_def)
  moreover have "(\<exists>r. fst (postReview w nts p m s cs dv lg) = Inr r)
       = (postAnswer w (snd (postComments w nts p m dv cs lg)) (PostNote p m s) = None)"
    by (simp add: postReview_result split: option.splits)
  ultimately show ?thesis by blast
qed

theorem postReview_counts_total_witness:
  "postReview (failingWhen (\<lambda>c. c = attemptOf decimalOfIntegral 1 2 sampleDiff failingComment
                               \<or> c = PostNote 1 2 (generalNoteText decimalOfIntegral failingComment)))
     decimalOfIntegral 1 2 (js ''S'') [okComment, failingComment] sampleDiff []
   = (Inr \<lparr>posted = 1, failed = 1\<rparr>,
      [attemptOf decimalOfIntegral 1 2 sampleDiff okComment,
       attemptOf decimalOfIntegral 1 2 sampleDiff failingComment,
       PostNote 1 2 (generalNoteText decimalOfIntegral failingComment),
       PostNote 1 2 (js ''S'')])
   \<and> posted \<lparr>posted = 1, failed = 1\<rparr> + failed \<lparr>posted = 1, failed = 1\<rparr>
       = int (length [okComment, failingComment])"
proof -
  have run: "postReview (failingWhen (\<lambda>c. c = attemptOf decimalOfIntegral 1 2 sampleDiff failingComment
                               \<or> c = PostNote 1 2 (generalNoteText decimalOfIntegral failingComment)))
     decimalOfIntegral 1 2 (js ''S'') [okComment, failingComment] sampleDiff []
   = (Inr \<lparr>posted = 1, failed = 1\<rparr>,
      [attemptOf decimalOfIntegral 1 2 sampleDiff okComment,
       attemptOf decimalOfIntegral 1 2 sampleDiff failingComment,
       PostNote 1 2 (generalNoteText decimalOfIntegral failingComment),
       PostNote 1 2 (js ''S'')])"
    by code_simp
  from postReview_counts_total [THEN conjunct1, rule_format, OF run] run
  show ?thesis by simp
qed

text \<open>
  C6, as the code has it. The summary note is the one call \<open>postReview\<close> makes after
  the loop, whatever the loop did. With no comments that call is the only one, and the
  counts \<open>{posted: 0, failed: 0}\<close> are returned when it succeeds; when it throws,
  \<open>postReview\<close> throws the same error and returns no counts.
\<close>

theorem postReview_summary_note:
  "snd (postReview w nts p m s cs dv lg) = snd (postComments w nts p m dv cs lg) @ [PostNote p m s]
   \<and> (postAnswer w lg (PostNote p m s) = None
        \<longrightarrow> postReview w nts p m s [] dv lg
              = (Inr \<lparr>posted = 0, failed = 0\<rparr>, lg @ [PostNote p m s]))
   \<and> (postAnswer w lg (PostNote p m s) = Some e
        \<longrightarrow> postReview w nts p m s [] dv lg = (Inl e, lg @ [PostNote p m s]))"
  by (simp add: postReview_log)
     (simp add: postReview_def postComments_def postMergeRequestNote_def)

theorem postReview_summary_note_witness:
  "postAnswer calmWorld [] (PostNote 1 2 (js ''S'')) = None
   \<and> postReview calmWorld decimalOfIntegral 1 2 (js ''S'') [] sampleDiff []
       = (Inr \<lparr>posted = 0, failed = 0\<rparr>, [PostNote 1 2 (js ''S'')])
   \<and> postAnswer (failingWhen isNote) [] (PostNote 1 2 (js ''S'')) = Some (js ''boom'')
   \<and> postReview (failingWhen isNote) decimalOfIntegral 1 2 (js ''S'') [] sampleDiff []
       = (Inl (js ''boom''), [PostNote 1 2 (js ''S'')])"
proof -
  have ok: "postAnswer calmWorld [] (PostNote 1 2 (js ''S'')) = None"
    by (simp add: calmWorld_def)
  have bad: "postAnswer (failingWhen isNote) [] (PostNote 1 2 (js ''S'')) = Some (js ''boom'')"
    by (simp add: failingWhen_def)
  note good = postReview_summary_note [of calmWorld decimalOfIntegral 1 2 "js ''S''" "[]" sampleDiff "[]",
         THEN conjunct2, THEN conjunct1, rule_format, OF ok]
  note thrown = postReview_summary_note [of "failingWhen isNote" decimalOfIntegral 1 2 "js ''S''" "[]"
         sampleDiff "[]" "js ''boom''", THEN conjunct2, THEN conjunct2, rule_format, OF bad]
  from ok good bad thrown show ?thesis by simp
qed

theorem postReview_summary_failure_counterexample:
  "postReview (failingWhen (\<lambda>c. c = PostNote 1 2 (js ''S''))) decimalOfIntegral 1 2 (js ''S'') []
     sampleDiff []
   = (Inl (js ''boom''), [PostNote 1 2 (js ''S'')])
   \<and> fst (postReview (failingWhen (\<lambda>c. c = PostNote 1 2 (js ''S''))) decimalOfIntegral 1 2
            (js ''S'') [] sampleDiff [])
       \<noteq> Inr \<lparr>posted = 0, failed = 0\<rparr>"
  by (simp add: postReview_def postComments_def postMergeRequestNote_def failingWhen_def)





text \<open>
  C2. Every comment of the list is attempted, whatever the world answers to the others.
  When the inline post of a comment throws, exactly one more call is made for it, the
  fallback note: the comment adds one to \<open>posted\<close> and nothing to \<open>failed\<close> when the
  note succeeds, and one to \<open>failed\<close> when it throws. For the comments
  \<open>[ok1, failing1]\<close>, where the post of \<open>ok1\<close> goes through, the inline post of
  \<open>failing1\<close> throws and its fallback succeeds, the loop ends with the counts
  \<open>{posted: 2, failed: 0}\<close> whatever the world answers afterwards, and these counts are
  the result that \<open>postReview\<close> returns after its summary note.
\<close>

theorem postReview_fallback:
  "(\<forall>c \<in> set cs. attemptOf nts p m dv c \<in> set (snd (postReview w nts p m s cs dv lg)))
   \<and> (findDiffFile dv c = Some d
        \<and> postAnswer w lg (PostDiscussion p m (discussionText c) (positionOf dv d c)) = Some e
      \<longrightarrow> postComment w nts p m dv (counts, lg) c =
            (if postAnswer w (lg @ [PostDiscussion p m (discussionText c) (positionOf dv d c)])
                  (PostNote p m (generalNoteText nts c)) = None
               then counts\<lparr>posted := posted counts + 1\<rparr>
               else counts\<lparr>failed := failed counts + 1\<rparr>,
             lg @ [PostDiscussion p m (discussionText c) (positionOf dv d c),
                   PostNote p m (generalNoteText nts c)]))
   \<and> (postAnswer w lg (attemptOf nts p m dv ok1) = None
        \<and> findDiffFile dv failing1 = Some d1
        \<and> postAnswer w (lg @ [attemptOf nts p m dv ok1])
             (PostDiscussion p m (discussionText failing1) (positionOf dv d1 failing1)) = Some e1
        \<and> postAnswer w (lg @ [attemptOf nts p m dv ok1,
                                PostDiscussion p m (discussionText failing1) (positionOf dv d1 failing1)])
             (PostNote p m (generalNoteText nts failing1)) = None
        \<and> postAnswer w (lg @ [attemptOf nts p m dv ok1,
                                PostDiscussion p m (discussionText failing1) (positionOf dv d1 failing1),
                                PostNote p m (generalNoteText nts failing1)])
             (PostNote p m s) = None
      \<longrightarrow> postReview w nts p m s [ok1, failing1] dv lg =
            (Inr \<lparr>posted = 2, failed = 0\<rparr>,
             lg @ [attemptOf nts p m dv ok1,
                   PostDiscussion p m (discussionText failing1) (positionOf dv d1 failing1),
                   PostNote p m (generalNoteText nts failing1),
                   PostNote p m s]))
   \<and> (postAnswer w lg (attemptOf nts p m dv ok1) = None
        \<and> findDiffFile dv failing1 = Some d1
        \<and> postAnswer w (lg @ [attemptOf nts p m dv ok1])
             (PostDiscussion p m (discussionText failing1) (positionOf dv d1 failing1)) = Some e1
        \<and> postAnswer w (lg @ [attemptOf nts p m dv ok1,
                                PostDiscussion p m (discussionText failing1) (positionOf dv d1 failing1)])
             (PostNote p m (generalNoteText nts failing1)) = None
      \<longrightarrow> postComments w nts p m dv [ok1, failing1] lg =
            (\<lparr>posted = 2, failed = 0\<rparr>,
             lg @ [attemptOf nts p m dv ok1,
                   PostDiscussion p m (discussionText failing1) (positionOf dv d1 failing1),
                   PostNote p m (generalNoteText nts failing1)]))"
proof -
  have every: "\<forall>c \<in> set cs. attemptOf nts p m dv c \<in> set (snd (postReview w nts p m s cs dv lg))"
    by (simp add: postReview_log postComments_def foldl_postComment_attempts)
  have one: "postComment w nts p m dv (counts, lg) c =
            (if postAnswer w (lg @ [PostDiscussion p m (discussionText c) (positionOf dv d c)])
                  (PostNote p m (generalNoteText nts c)) = None
               then counts\<lparr>posted := posted counts + 1\<rparr>
               else counts\<lparr>failed := failed counts + 1\<rparr>,
             lg @ [PostDiscussion p m (discussionText c) (positionOf dv d c),
                   PostNote p m (generalNoteText nts c)])"
    if "findDiffFile dv c = Some d"
      and "postAnswer w lg (PostDiscussion p m (discussionText c) (positionOf dv d c)) = Some e"
    using that by (simp add: postComment_cases attemptOf_def Let_def)
  have two: "postReview w nts p m s [ok1, failing1] dv lg =
            (Inr \<lparr>posted = 2, failed = 0\<rparr>,
             lg @ [attemptOf nts p m dv ok1,
                   PostDiscussion p m (discussionText failing1) (positionOf dv d1 failing1),
                   PostNote p m (generalNoteText nts failing1),
                   PostNote p m s])"
    if "postAnswer w lg (attemptOf nts p m dv ok1) = None"
      and "findDiffFile dv failing1 = Some d1"
      and "postAnswer w (lg @ [attemptOf nts p m dv ok1])
             (PostDiscussion p m (discussionText failing1) (positionOf dv d1 failing1)) = Some e1"
      and "postAnswer w (lg @ [attemptOf nts p m dv ok1,
                                PostDiscussion p m (discussionText failing1) (positionOf dv d1 failing1)])
             (PostNote p m (generalNoteText nts failing1)) = None"
      and "postAnswer w (lg @ [attemptOf nts p m dv ok1,
                                PostDiscussion p m (discussionText failing1) (positionOf dv d1 failing1),
                                PostNote p m (generalNoteText nts failing1)])
             (PostNote p m s) = None"
  proof -
    have att: "attemptOf nts p m dv failing1
                 = PostDiscussion p m (discussionText failing1) (positionOf dv d1 failing1)"
      using that(2) by (simp add: attemptOf_def)
    show ?thesis
      using that(1,3,4,5)
      by (simp add: postReview_def postComments_def postComment_cases Let_def att
            postMergeRequestNote_def)
  qed
  have loop: "postComments w nts p m dv [ok1, failing1] lg =
            (\<lparr>posted = 2, failed = 0\<rparr>,
             lg @ [attemptOf nts p m dv ok1,
                   PostDiscussion p m (discussionText failing1) (positionOf dv d1 failing1),
                   PostNote p m (generalNoteText nts failing1)])"
    if "postAnswer w lg (attemptOf nts p m dv ok1) = None"
      and "findDiffFile dv failing1 = Some d1"
      and "postAnswer w (lg @ [attemptOf nts p m dv ok1])
             (PostDiscussion p m (discussionText failing1) (positionOf dv d1 failing1)) = Some e1"
      and "postAnswer w (lg @ [attemptOf nts p m dv ok1,
                                PostDiscussion p m (discussionText failing1) (positionOf dv d1 failing1)])
             (PostNote p m (generalNoteText nts failing1)) = None"
  proof -
    have att: "attemptOf nts p m dv failing1
                 = PostDiscussion p m (discussionText failing1) (positionOf dv d1 failing1)"
      using that(2) by (simp add: attemptOf_def)
    show ?thesis
      using that(1,3,4)
      by (simp add: postComments_def postComment_cases Let_def att)
  qed
  from every one two loop show ?thesis by blast
qed


theorem postReview_fallback_witness:
  "postAnswer (failingWhen (\<lambda>c. c = attemptOf decimalOfIntegral 1 2 sampleDiff failingComment)) []
       (attemptOf decimalOfIntegral 1 2 sampleDiff okComment) = None
   \<and> findDiffFile sampleDiff failingComment = Some sampleFile
   \<and> postAnswer (failingWhen (\<lambda>c. c = attemptOf decimalOfIntegral 1 2 sampleDiff failingComment))
         [attemptOf decimalOfIntegral 1 2 sampleDiff okComment]
         (PostDiscussion 1 2 (discussionText failingComment)
            (positionOf sampleDiff sampleFile failingComment)) = Some (js ''boom'')
   \<and> postReview (failingWhen (\<lambda>c. c = attemptOf decimalOfIntegral 1 2 sampleDiff failingComment))
        decimalOfIntegral 1 2 (js ''S'') [okComment, failingComment] sampleDiff []
      = (Inr \<lparr>posted = 2, failed = 0\<rparr>,
         [attemptOf decimalOfIntegral 1 2 sampleDiff okComment,
          PostDiscussion 1 2 (discussionText failingComment)
            (positionOf sampleDiff sampleFile failingComment),
          PostNote 1 2 (generalNoteText decimalOfIntegral failingComment),
          PostNote 1 2 (js ''S'')])
   \<and> postComment (failingWhen (\<lambda>c. isDiscussion c \<or> isNote c)) decimalOfIntegral 1 2 sampleDiff
        (\<lparr>posted = 0, failed = 0\<rparr>, []) failingComment
      = (\<lparr>posted = 0, failed = 1\<rparr>,
         [PostDiscussion 1 2 (discussionText failingComment)
            (positionOf sampleDiff sampleFile failingComment),
          PostNote 1 2 (generalNoteText decimalOfIntegral failingComment)])
   \<and> attemptOf decimalOfIntegral 1 2 sampleDiff failingComment
        \<in> set (snd (postReview (failingWhen (\<lambda>c. isDiscussion c \<or> isNote c)) decimalOfIntegral 1 2
                        (js ''S'') [okComment, failingComment] sampleDiff []))
   \<and> postAnswer (failingWhen (\<lambda>c. c = attemptOf decimalOfIntegral 1 2 sampleDiff failingComment
                                 \<or> c = PostNote 1 2 (js ''S'')))
         [attemptOf decimalOfIntegral 1 2 sampleDiff okComment,
          PostDiscussion 1 2 (discussionText failingComment)
            (positionOf sampleDiff sampleFile failingComment),
          PostNote 1 2 (generalNoteText decimalOfIntegral failingComment)]
         (PostNote 1 2 (js ''S'')) = Some (js ''boom'')
   \<and> postComments (failingWhen (\<lambda>c. c = attemptOf decimalOfIntegral 1 2 sampleDiff failingComment
                                   \<or> c = PostNote 1 2 (js ''S'')))
        decimalOfIntegral 1 2 sampleDiff [okComment, failingComment] []
      = (\<lparr>posted = 2, failed = 0\<rparr>,
         [attemptOf decimalOfIntegral 1 2 sampleDiff okComment,
          PostDiscussion 1 2 (discussionText failingComment)
            (positionOf sampleDiff sampleFile failingComment),
          PostNote 1 2 (generalNoteText decimalOfIntegral failingComment)])"
proof -
  let ?u = "failingWhen (\<lambda>c. c = attemptOf decimalOfIntegral 1 2 sampleDiff failingComment
                            \<or> c = PostNote 1 2 (js ''S''))"
  let ?w = "failingWhen (\<lambda>c. c = attemptOf decimalOfIntegral 1 2 sampleDiff failingComment)"
  let ?v = "failingWhen (\<lambda>c. isDiscussion c \<or> isNote c) :: rat world"
  let ?disc = "PostDiscussion 1 2 (discussionText failingComment)
                 (positionOf sampleDiff sampleFile failingComment)"
  have h1: "postAnswer ?w [] (attemptOf decimalOfIntegral 1 2 sampleDiff okComment) = None"
    by code_simp
  have h2: "findDiffFile sampleDiff failingComment = Some sampleFile"
    by code_simp
  have h3: "postAnswer ?w [attemptOf decimalOfIntegral 1 2 sampleDiff okComment] ?disc
              = Some (js ''boom'')"
    by code_simp
  have h4: "postAnswer ?w [attemptOf decimalOfIntegral 1 2 sampleDiff okComment, ?disc]
              (PostNote 1 2 (generalNoteText decimalOfIntegral failingComment)) = None"
    by code_simp
  have h5: "postAnswer ?w [attemptOf decimalOfIntegral 1 2 sampleDiff okComment, ?disc,
                           PostNote 1 2 (generalNoteText decimalOfIntegral failingComment)]
              (PostNote 1 2 (js ''S'')) = None"
    by code_simp
  have "postReview ?w decimalOfIntegral 1 2 (js ''S'') [okComment, failingComment] sampleDiff []
      = (Inr \<lparr>posted = 2, failed = 0\<rparr>,
         [] @ [attemptOf decimalOfIntegral 1 2 sampleDiff okComment, ?disc,
          PostNote 1 2 (generalNoteText decimalOfIntegral failingComment),
          PostNote 1 2 (js ''S'')])"
    by (rule postReview_fallback [where w = ?w and lg = "[]" and ?d1.0 = sampleFile
              and ?e1.0 = "js ''boom''" and cs = "[]" and c = okComment and d = sampleFile
              and e = "[]" and counts = "\<lparr>posted = 0, failed = 0\<rparr>",
            THEN conjunct2, THEN conjunct2, THEN conjunct1, rule_format])
       (simp add: h1 h2 h3 h4 h5)
  then have whole: "postReview ?w decimalOfIntegral 1 2 (js ''S'') [okComment, failingComment]
                      sampleDiff []
      = (Inr \<lparr>posted = 2, failed = 0\<rparr>,
         [attemptOf decimalOfIntegral 1 2 sampleDiff okComment, ?disc,
          PostNote 1 2 (generalNoteText decimalOfIntegral failingComment),
          PostNote 1 2 (js ''S'')])"
    by simp
  have k1: "postAnswer ?v [] ?disc = Some (js ''boom'')"
    by (simp add: failingWhen_def)
  have k2: "postAnswer ?v ([] @ [?disc])
              (PostNote 1 2 (generalNoteText decimalOfIntegral failingComment)) \<noteq> None"
    by (simp add: failingWhen_def)
  from postReview_fallback [where w = ?v and lg = "[]" and c = failingComment and d = sampleFile
           and e = "js ''boom''" and counts = "\<lparr>posted = 0, failed = 0\<rparr>"
           and nts = decimalOfIntegral and p = 1 and m = 2 and dv = sampleDiff,
         THEN conjunct2, THEN conjunct1, rule_format, OF conjI [OF h2 k1]] k2
  have step: "postComment ?v decimalOfIntegral 1 2 sampleDiff (\<lparr>posted = 0, failed = 0\<rparr>, [])
                failingComment
      = (\<lparr>posted = 0, failed = 1\<rparr>,
         [?disc, PostNote 1 2 (generalNoteText decimalOfIntegral failingComment)])"
    by simp
  have mem: "failingComment \<in> set [okComment, failingComment]"
    by simp
  note every = postReview_fallback [where w = ?v and lg = "[]" and cs = "[okComment, failingComment]"
           and nts = decimalOfIntegral and p = 1 and m = 2 and dv = sampleDiff and s = "js ''S''",
         THEN conjunct1, rule_format, OF mem]
  have u1: "postAnswer ?u [] (attemptOf decimalOfIntegral 1 2 sampleDiff okComment) = None"
    by code_simp
  have u3: "postAnswer ?u [attemptOf decimalOfIntegral 1 2 sampleDiff okComment] ?disc
              = Some (js ''boom'')"
    by code_simp
  have u4: "postAnswer ?u [attemptOf decimalOfIntegral 1 2 sampleDiff okComment, ?disc]
              (PostNote 1 2 (generalNoteText decimalOfIntegral failingComment)) = None"
    by code_simp
  have u5: "postAnswer ?u [attemptOf decimalOfIntegral 1 2 sampleDiff okComment, ?disc,
                           PostNote 1 2 (generalNoteText decimalOfIntegral failingComment)]
              (PostNote 1 2 (js ''S'')) = Some (js ''boom'')"
    by code_simp
  have "postComments ?u decimalOfIntegral 1 2 sampleDiff [okComment, failingComment] []
      = (\<lparr>posted = 2, failed = 0\<rparr>,
         [] @ [attemptOf decimalOfIntegral 1 2 sampleDiff okComment, ?disc,
          PostNote 1 2 (generalNoteText decimalOfIntegral failingComment)])"
    by (rule postReview_fallback [where w = ?u and lg = "[]" and ?d1.0 = sampleFile
              and ?e1.0 = "js ''boom''" and cs = "[]" and c = okComment and d = sampleFile
              and e = "[]" and counts = "\<lparr>posted = 0, failed = 0\<rparr>" and s = "[]",
            THEN conjunct2, THEN conjunct2, THEN conjunct2, rule_format])
       (simp add: u1 h2 u3 u4)
  then have counted: "postComments ?u decimalOfIntegral 1 2 sampleDiff [okComment, failingComment] []
      = (\<lparr>posted = 2, failed = 0\<rparr>,
         [attemptOf decimalOfIntegral 1 2 sampleDiff okComment, ?disc,
          PostNote 1 2 (generalNoteText decimalOfIntegral failingComment)])"
    by simp
  show ?thesis
    by (intro conjI) (fact h1 h2 h3 whole step every u5 counted)+
qed

section \<open>The trigger gate\<close>

text \<open>
  C1. For a merge-request event with action \<open>update\<close> that is neither a draft nor work
  in progress, and with the bot among its reviewers: when the payload has a
  \<open>reviewer_ids\<close> change record, \<open>shouldTriggerReview\<close> is true exactly when the
  bot's id is in the record's current list and not in its previous list (a missing list
  counts as empty); when the payload has no such record, it is true.
\<close>

theorem shouldTriggerReview_newly_added:
  assumes "object_kind payload = js ''merge_request''"
    and "action payload = js ''update''"
    and "\<not> draft payload" and "\<not> work_in_progress payload"
    and "reviewers payload = Some rs"
    and "find (\<lambda>r. username r = gitlabBotUsername cfg) rs = Some botUser"
  shows "shouldTriggerReview payload cfg =
           (case reviewer_ids_change payload of
              Some rc \<Rightarrow> user_id botUser \<in> set (orEmpty (current rc))
                         \<and> user_id botUser \<notin> set (orEmpty (previous rc))
            | None \<Rightarrow> True)"
  using assms by (auto simp: shouldTriggerReview_def Let_def split: option.splits)

theorem shouldTriggerReview_newly_added_witness:
  "object_kind samplePayload = js ''merge_request'' \<and> action samplePayload = js ''update''
   \<and> \<not> draft samplePayload \<and> \<not> work_in_progress samplePayload
   \<and> Option.bind (reviewers samplePayload) (find (\<lambda>r. username r = gitlabBotUsername sampleConfig))
       = Some \<lparr>user_id = 8, name = js ''Bot'', username = js ''copilot-reviewer''\<rparr>
   \<and> shouldTriggerReview samplePayload sampleConfig
   \<and> \<not> shouldTriggerReview
          (samplePayload\<lparr>reviewer_ids_change := Some \<lparr>previous = Some [5, 8], current = Some [5, 8]\<rparr>\<rparr>)
          sampleConfig
   \<and> shouldTriggerReview (samplePayload\<lparr>reviewer_ids_change := None\<rparr>) sampleConfig"
proof -
  let ?bot = "\<lparr>user_id = 8, name = js ''Bot'', username = js ''copilot-reviewer''\<rparr>"
  let ?rs = "[\<lparr>user_id = 5, name = js ''A'', username = js ''alice''\<rparr>, ?bot]"
  have k: "object_kind samplePayload = js ''merge_request''"
    and a: "action samplePayload = js ''update''"
    and d: "\<not> draft samplePayload" and wip: "\<not> work_in_progress samplePayload"
    and r: "reviewers samplePayload = Some ?rs"
    by (simp_all add: samplePayload_def)
  have f: "find (\<lambda>r. username r = gitlabBotUsername sampleConfig) ?rs = Some ?bot"
    by (simp add: sampleConfig_def js_def)
  have t1: "shouldTriggerReview samplePayload sampleConfig"
    using shouldTriggerReview_newly_added [OF k a d wip r f]
    by (simp add: samplePayload_def orEmpty_def)
  have t2: "\<not> shouldTriggerReview
          (samplePayload\<lparr>reviewer_ids_change := Some \<lparr>previous = Some [5, 8], current = Some [5, 8]\<rparr>\<rparr>)
          sampleConfig"
    using shouldTriggerReview_newly_added [of
        "samplePayload\<lparr>reviewer_ids_change := Some \<lparr>previous = Some [5, 8], current = Some [5, 8]\<rparr>\<rparr>"
        ?rs sampleConfig ?bot] k a d wip r f
    by (simp add: orEmpty_def)
  have t3: "shouldTriggerReview (samplePayload\<lparr>reviewer_ids_change := None\<rparr>) sampleConfig"
    using shouldTriggerReview_newly_added [of "samplePayload\<lparr>reviewer_ids_change := None\<rparr>"
        ?rs sampleConfig ?bot] k a d wip r f
    by simp
  from k a d wip r f t1 t2 t3 show ?thesis by simp
qed

section \<open>The parser of the review response\<close>

lemma normalizeSeverity_valid:
  "normalizeSeverity v \<in> {js ''info'', js ''warning'', js ''critical''}"
  by (cases v rule: normalizeSeverity.cases) auto

lemma toComment_severity:
  "toComment c = Some r \<Longrightarrow> severity r \<in> {js ''info'', js ''warning'', js ''critical''}"
  using normalizeSeverity_valid [of "getProp c (js ''severity'')"]
  by (auto split: option.splits json.splits)

lemma ofParsed_severity:
  assumes "ofParsed v = Some r" and "c \<in> set (comments r)"
  shows "severity c \<in> {js ''info'', js ''warning'', js ''critical''}"
proof -
  from assms obtain kept where "c \<in> set (List.map_filter toComment kept)"
    by (auto simp: ofParsed_def Let_def split: json.splits option.splits)
  then obtain x where "toComment x = Some c"
    by (auto simp: List.map_filter_def)
  then show ?thesis by (rule toComment_severity)
qed

lemma ofParsed_needs_summary:
  "\<not> isStringV (getProp v (js ''summary'')) \<Longrightarrow> ofParsed v = None"
  by (cases "getProp v (js ''summary'')" rule: isStringV.cases)
     (auto simp: ofParsed_def split: json.splits option.splits)

text \<open>
  C3, as the code has it. \<open>parseReviewResponse\<close> is total: for every decoder and every
  input it gives a result whose comments all carry one of the three severities. Whenever
  decoding fails, or the decoded value has no string summary, the result's summary is the
  input exactly as it was given (not the text with its fence taken away) and there are no
  comments. The text \<open>not json at all\<close> gives that text as summary and no comments.
\<close>

theorem parseReviewResponse_fallback:
  "(\<forall>c \<in> set (comments (parseReviewResponse decode content)).
       severity c \<in> {js ''info'', js ''warning'', js ''critical''})
   \<and> (decode (cleanedOf content) = None
        \<or> (\<exists>v. decode (cleanedOf content) = Some v \<and> \<not> isStringV (getProp v (js ''summary'')))
      \<longrightarrow> parseReviewResponse decode content = \<lparr>summary = content, comments = []\<rparr>)
   \<and> parseReviewResponse JSON_parse (js ''not json at all'')
       = \<lparr>summary = js ''not json at all'', comments = []\<rparr>"
proof -
  have valid: "\<forall>c \<in> set (comments (parseReviewResponse decode content)).
       severity c \<in> {js ''info'', js ''warning'', js ''critical''}"
  proof (cases "Option.bind (decode (cleanedOf content)) ofParsed")
    case None
    then show ?thesis by (simp add: parseReviewResponse_def)
  next
    case (Some r)
    then obtain v where "ofParsed v = Some r"
      by (auto simp: bind_eq_Some_conv)
    with Some show ?thesis
      by (auto simp: parseReviewResponse_def dest: ofParsed_severity)
  qed
  have fallback: "parseReviewResponse decode content = \<lparr>summary = content, comments = []\<rparr>"
    if "decode (cleanedOf content) = None
        \<or> (\<exists>v. decode (cleanedOf content) = Some v \<and> \<not> isStringV (getProp v (js ''summary'')))"
    using that by (auto simp: parseReviewResponse_def ofParsed_needs_summary)
  have example: "parseReviewResponse JSON_parse (js ''not json at all'')
       = \<lparr>summary = js ''not json at all'', comments = []\<rparr>"
    by code_simp
  from valid fallback example show ?thesis by blast
qed

theorem parseReviewResponse_fallback_witness:
  "JSON_parse (cleanedOf (js ''not json at all'')) = None
   \<and> parseReviewResponse JSON_parse (js ''not json at all'')
       = \<lparr>summary = js ''not json at all'', comments = []\<rparr>
   \<and> JSON_parse (cleanedOf (js ''[1, 2]'')) = Some (JArray [JNumber 1, JNumber 2])
   \<and> parseReviewResponse JSON_parse (js ''[1, 2]'') = \<lparr>summary = js ''[1, 2]'', comments = []\<rparr>"
proof -
  have none: "JSON_parse (cleanedOf (js ''not json at all'')) = None"
    by code_simp
  have arr: "JSON_parse (cleanedOf (js ''[1, 2]'')) = Some (JArray [JNumber 1, JNumber 2])"
    by code_simp
  have nosum: "\<not> isStringV (getProp (JArray [JNumber 1, JNumber (2::rat)]) (js ''summary''))"
    by simp
  from parseReviewResponse_fallback [of JSON_parse "js ''not json at all''",
         THEN conjunct2, THEN conjunct1, rule_format, OF disjI1, OF none]
  have r1: "parseReviewResponse JSON_parse (js ''not json at all'')
       = \<lparr>summary = js ''not json at all'', comments = []\<rparr>" .
  from parseReviewResponse_fallback [of JSON_parse "js ''[1, 2]''",
         THEN conjunct2, THEN conjunct1, rule_format, OF disjI2] arr nosum
  have r2: "parseReviewResponse JSON_parse (js ''[1, 2]'') = \<lparr>summary = js ''[1, 2]'', comments = []\<rparr>"
    by blast
  from none r1 arr r2 show ?thesis by simp
qed

theorem parseReviewResponse_fallback_keeps_fence_counterexample:
  "cleanedOf (fence @ js ''json'' @ LF @ js ''not json'' @ LF @ fence) = js ''not json''
   \<and> JSON_parse (js ''not json'') = None
   \<and> parseReviewResponse JSON_parse (fence @ js ''json'' @ LF @ js ''not json'' @ LF @ fence)
       = \<lparr>summary = fence @ js ''json'' @ LF @ js ''not json'' @ LF @ fence, comments = []\<rparr>
   \<and> summary (parseReviewResponse JSON_parse (fence @ js ''json'' @ LF @ js ''not json'' @ LF @ fence))
       \<noteq> js ''not json''"
  by code_simp


lemma filterComments_no_null:
  "JNull \<notin> set cs \<Longrightarrow> filterComments cs = Some (filter (\<lambda>c. keepComment c = Some True) cs)"
proof (induction cs)
  case Nil
  show ?case by simp
next
  case (Cons c cs)
  then have "c \<noteq> JNull" and "JNull \<notin> set cs" by auto
  with Cons.IH show ?case by (cases c) auto
qed

lemma filterComments_null: "JNull \<in> set cs \<Longrightarrow> filterComments cs = None"
  by (induction cs) (auto split: option.splits)

lemma toComment_iff_kept:
  "c \<noteq> JNull \<Longrightarrow> (keepComment c = Some True) = (toComment c \<noteq> None)"
  by (cases c)
     (auto split: option.splits json.splits elim: isStringV.elims isNumberV.elims)

text \<open>
  As long as no candidate is \<open>null\<close>, the comments of the result are the candidates
  with a string file, a number line and a string body, in their order, and the summary is
  kept.
\<close>

lemma ofParsed_keeps_well_typed:
  assumes "getProp v (js ''summary'') = Some (JString s)"
    and "getProp v (js ''comments'') = Some (JArray cs)"
    and "JNull \<notin> set cs"
  shows "ofParsed v
           = Some \<lparr>summary = s,
                   comments = List.map_filter toComment (filter (\<lambda>c. keepComment c = Some True) cs)\<rparr>"
proof -
  from assms(1) have "v \<noteq> JNull" by auto
  with assms show ?thesis
    by (cases v) (simp_all add: ofParsed_def filterComments_no_null)
qed

lemma parseReviewResponse_drops_malformed_line:
  "parseReviewResponse JSON_parse
     malformedLineJson
   = \<lparr>summary = js ''x'', comments = []\<rparr>"
  by code_simp

text \<open>
  C8 at an input with a \<open>null\<close> candidate. Decoding succeeds and the second candidate
  has a string file, a number line and a string body, but it is not kept: reading
  \<open>c.file\<close> of the \<open>null\<close> candidate throws inside \<open>filter\<close>, the \<open>catch\<close> block
  takes over, and the result is the raw text as summary with no comments.
\<close>

theorem parseReviewResponse_null_candidate:
  "JSON_parse nullCandidateJson
     = Some (JObject
         [(js ''comments'',
           JArray [JNull,
                   JObject [(js ''severity'', JString (js ''info'')), (js ''body'', JString (js ''b'')),
                            (js ''line'', JNumber 1), (js ''file'', JString (js ''a.ts''))]]),
          (js ''summary'', JString (js ''x''))])
   \<and> parseReviewResponse JSON_parse nullCandidateJson
       = \<lparr>summary = nullCandidateJson, comments = []\<rparr>"
  by code_simp

lemma dropWhile_head: "s \<noteq> [] \<Longrightarrow> \<not> P (hd s) \<Longrightarrow> dropWhile P s = s"
  by (cases s) auto

lemma trim_unchanged:
  assumes "s \<noteq> []" and "\<not> isWhiteSpace (hd s)" and "\<not> isWhiteSpace (last s)"
  shows "trim s = s"
proof -
  have "dropWhile isWhiteSpace s = s"
    using assms by (simp add: dropWhile_head)
  moreover have "dropWhile isWhiteSpace (rev s) = rev s"
    using assms by (simp add: dropWhile_head hd_rev)
  ultimately show ?thesis by (simp add: trim_def)
qed

lemma tick_not_space: "\<not> isWhiteSpace 0x60"
  by (simp add: isWhiteSpace_def)

lemma cleanedOf_fenced:
  assumes "tag = [] \<or> tag = js ''json''"
  shows "cleanedOf (fence @ tag @ LF @ text @ LF @ fence) = text"
proof -
  let ?s = "fence @ tag @ LF @ text @ LF @ fence"
  have "trim ?s = ?s"
    by (rule trim_unchanged) (simp_all add: fence_def tick_not_space)
  moreover have "startsWith ?s fence"
    by (simp add: startsWith_def)
  moreover have "stripOpeningFence ?s = text @ LF @ fence"
    using assms by (auto simp: stripOpeningFence_def startsWith_def fence_def LF_def js_def)
  moreover have "stripClosingFence (text @ LF @ fence) = text"
    by (simp add: stripClosingFence_def endsWith_def fence_def LF_def)
  ultimately show ?thesis by (simp add: cleanedOf_def)
qed

text \<open>
  C9, as the code has it. Take a text that does not start with a fence once trimmed,
  that the decoder reads as it reads the trimmed text, and on which the structured path
  succeeds (it decodes to a value with a string summary). Wrapped in a fence with the
  tag \<open>json\<close> or with no tag (fence, tag, line feed, text, line feed, fence) it parses
  to the same result as unwrapped. No other tag is taken away, and when the structured
  path fails each of the two results has its own input as summary.
\<close>

theorem parseReviewResponse_fenced:
  assumes "tag = [] \<or> tag = js ''json''"
    and "\<not> startsWith (trim text) fence"
    and "decode text = decode (trim text)"
    and "Option.bind (decode text) ofParsed = Some r"
  shows "parseReviewResponse decode (fence @ tag @ LF @ text @ LF @ fence) = r
         \<and> parseReviewResponse decode text = r"
proof -
  have "cleanedOf text = trim text"
    using assms(2) by (simp add: cleanedOf_def)
  with assms(3,4) have "parseReviewResponse decode text = r"
    by (simp add: parseReviewResponse_def)
  moreover have "parseReviewResponse decode (fence @ tag @ LF @ text @ LF @ fence) = r"
    using assms(4) by (simp add: parseReviewResponse_def cleanedOf_fenced [OF assms(1)])
  ultimately show ?thesis by simp
qed

theorem parseReviewResponse_fenced_witness:
  "\<not> startsWith (trim (sampleOkJson)) fence
   \<and> JSON_parse (sampleOkJson)
       = JSON_parse (trim (sampleOkJson))
   \<and> Option.bind (JSON_parse (sampleOkJson)) ofParsed
       = Some \<lparr>summary = js ''ok'', comments = []\<rparr>
   \<and> parseReviewResponse JSON_parse
        (fence @ js ''json'' @ LF @ sampleOkJson @ LF @ fence)
       = \<lparr>summary = js ''ok'', comments = []\<rparr>
   \<and> parseReviewResponse JSON_parse (sampleOkJson)
       = \<lparr>summary = js ''ok'', comments = []\<rparr>"
proof -
  have tag: "js ''json'' = [] \<or> js ''json'' = js ''json''"
    by simp
  have h2: "\<not> startsWith (trim (sampleOkJson)) fence"
    by code_simp
  have h3: "JSON_parse (sampleOkJson)
       = JSON_parse (trim (sampleOkJson))"
    by code_simp
  have h4: "Option.bind (JSON_parse (sampleOkJson)) ofParsed
       = Some \<lparr>summary = js ''ok'', comments = []\<rparr>"
    by code_simp
  from parseReviewResponse_fenced [OF tag h2 h3 h4] h2 h3 h4
  show ?thesis by simp
qed

theorem parseReviewResponse_fenced_counterexample:
  "parseReviewResponse JSON_parse
      (fence @ js ''typescript'' @ LF @ sampleOkJson @ LF @ fence)
     = \<lparr>summary = fence @ js ''typescript'' @ LF @ sampleOkJson @ LF @ fence,
        comments = []\<rparr>
   \<and> parseReviewResponse JSON_parse (sampleOkJson)
     = \<lparr>summary = js ''ok'', comments = []\<rparr>
   \<and> parseReviewResponse JSON_parse (fence @ js ''json'' @ LF @ js ''not json at all'' @ LF @ fence)
     = \<lparr>summary = fence @ js ''json'' @ LF @ js ''not json at all'' @ LF @ fence, comments = []\<rparr>
   \<and> parseReviewResponse JSON_parse (js ''not json at all'')
     = \<lparr>summary = js ''not json at all'', comments = []\<rparr>
   \<and> parseReviewResponse JSON_parse
        (fence @ js ''typescript'' @ LF @ sampleOkJson @ LF @ fence)
     \<noteq> parseReviewResponse JSON_parse (sampleOkJson)
   \<and> parseReviewResponse JSON_parse (fence @ js ''json'' @ LF @ js ''not json at all'' @ LF @ fence)
     \<noteq> parseReviewResponse JSON_parse (js ''not json at all'')
   \<and> parseReviewResponse JSON_parse
        (fence @ js ''json'' @ LF @ (fence @ LF @ sampleOkJson @ LF @ fence) @ LF @ fence)
     \<noteq> parseReviewResponse JSON_parse (fence @ LF @ sampleOkJson @ LF @ fence)
   \<and> parseReviewResponse JSON_parse (fence @ js ''json'' @ LF @ (0xA0 # sampleOkJson) @ LF @ fence)
     \<noteq> parseReviewResponse JSON_parse (0xA0 # sampleOkJson)"
  by code_simp

section \<open>The handler\<close>

lemma handler_after_gate:
  assumes "cfg = Some c" and "verifyWebhookToken tok (gitlabWebhookSecret c)"
    and "payload = Some pl" and "shouldTriggerReview pl c"
  shows "handler w decode nts cfg tok payload = reviewAndReport w decode nts c pl"
  using assms by (simp add: handler_def)

lemma reviewAndReport_failed:
  assumes "reviewRun w decode nts c pl [] = (Inl e, clone, lg)"
  shows "reviewAndReport w decode nts c pl =
           (ReviewFailed e,
            lg @ PostNote (project_id pl) (iid pl) (failureNote e)
               # (case clone of None \<Rightarrow> [] | Some dir \<Rightarrow> [Rm dir]))"
  using assms
  by (simp add: reviewAndReport_def postMergeRequestNote_def cleanup_def split: option.splits)

lemma getLatestDiffs_log:
  "getLatestDiffs w p m lg = (r, lg1) \<Longrightarrow>
     \<exists>ext. lg1 = lg @ ext \<and> filter isNote ext = [] \<and> filter isAssistantCall ext = []"
  by (auto simp: getLatestDiffs_def getMergeRequestVersions_def getMergeRequestVersionDetail_def
           split: sum.splits list.splits)

lemma cloneRepository_log:
  "cloneRepository w u b t lg = (r, lg1) \<Longrightarrow>
     \<exists>ext. lg1 = lg @ ext \<and> filter isNote ext = [] \<and> filter isAssistantCall ext = []"
  by (auto simp: cloneRepository_def Let_def split: sum.splits option.splits)

lemma reviewMergeRequest_log:
  "reviewMergeRequest w decode opts lg = (r, lg1) \<Longrightarrow> \<exists>ext. lg1 = lg @ ext \<and> filter isNote ext = []"
  by (auto simp: reviewMergeRequest_def reviewSession_def Let_def
           split: sum.splits option.splits prod.splits)

lemma failureNote_contains: "\<exists>a b. failureNote e = a @ e @ b"
  unfolding failureNote_def by (metis append.assoc)


text \<open>
  C4. In a run that passed the gate, an error of the diff fetch, of the clone or of the
  assistant ends the run with the response \<open>Review failed\<close> (status 500) carrying that
  error, and the log of the run holds exactly one note, the notification whose text
  contains the error's message. Nothing is assumed about what the world answers to the
  notification: when it throws, the response is the same. When the fetch or the clone
  failed, the log holds no call to the assistant.
\<close>

theorem handler_fatal_error:
  assumes "cfg = Some c" and "verifyWebhookToken tok (gitlabWebhookSecret c)"
    and "payload = Some pl" and "shouldTriggerReview pl c"
  shows
    "(getLatestDiffs w (project_id pl) (iid pl) [] = (Inl e, lg1)
        \<longrightarrow> handler w decode nts cfg tok payload
              = (ReviewFailed e, lg1 @ [PostNote (project_id pl) (iid pl) (failureNote e)])
            \<and> filter isNote (snd (handler w decode nts cfg tok payload))
                = [PostNote (project_id pl) (iid pl) (failureNote e)]
            \<and> filter isAssistantCall (snd (handler w decode nts cfg tok payload)) = [])
     \<and> (getLatestDiffs w (project_id pl) (iid pl) [] = (Inr dv, lg1) \<and> diffs dv \<noteq> []
          \<and> cloneRepository w (project_http_url pl) (source_branch pl) (gitlabToken c) lg1
              = (Inl e, lg2)
        \<longrightarrow> handler w decode nts cfg tok payload
              = (ReviewFailed e, lg2 @ [PostNote (project_id pl) (iid pl) (failureNote e)])
            \<and> filter isNote (snd (handler w decode nts cfg tok payload))
                = [PostNote (project_id pl) (iid pl) (failureNote e)]
            \<and> filter isAssistantCall (snd (handler w decode nts cfg tok payload)) = [])
     \<and> (getLatestDiffs w (project_id pl) (iid pl) [] = (Inr dv, lg1) \<and> diffs dv \<noteq> []
          \<and> cloneRepository w (project_http_url pl) (source_branch pl) (gitlabToken c) lg1
              = (Inr dir, lg2)
          \<and> reviewMergeRequest w decode
               \<lparr>config = c, repoDir = dir, mrTitle = title pl, mrDescription = description pl,
                mrUrl = url pl, sourceBranch = source_branch pl, targetBranch = target_branch pl,
                diffVersion = dv\<rparr> lg2 = (Inl e, lg3)
        \<longrightarrow> handler w decode nts cfg tok payload
              = (ReviewFailed e, lg3 @ [PostNote (project_id pl) (iid pl) (failureNote e), Rm dir])
            \<and> filter isNote (snd (handler w decode nts cfg tok payload))
                = [PostNote (project_id pl) (iid pl) (failureNote e)])
     \<and> statusCode (ReviewFailed e) = 500
     \<and> (\<exists>a b. failureNote e = a @ e @ b)"
proof -
  note gate = handler_after_gate [OF assms, of w decode nts]
  have fetch: "handler w decode nts cfg tok payload
              = (ReviewFailed e, lg1 @ [PostNote (project_id pl) (iid pl) (failureNote e)])
            \<and> filter isNote (snd (handler w decode nts cfg tok payload))
                = [PostNote (project_id pl) (iid pl) (failureNote e)]
            \<and> filter isAssistantCall (snd (handler w decode nts cfg tok payload)) = []"
    if f: "getLatestDiffs w (project_id pl) (iid pl) [] = (Inl e, lg1)"
  proof -
    from f have "reviewRun w decode nts c pl [] = (Inl e, None, lg1)"
      by (simp add: reviewRun_def)
    from reviewAndReport_failed [OF this] getLatestDiffs_log [OF f]
    show ?thesis by (auto simp: gate)
  qed
  have checkout: "handler w decode nts cfg tok payload
              = (ReviewFailed e, lg2 @ [PostNote (project_id pl) (iid pl) (failureNote e)])
            \<and> filter isNote (snd (handler w decode nts cfg tok payload))
                = [PostNote (project_id pl) (iid pl) (failureNote e)]
            \<and> filter isAssistantCall (snd (handler w decode nts cfg tok payload)) = []"
    if f: "getLatestDiffs w (project_id pl) (iid pl) [] = (Inr dv, lg1)" and ne: "diffs dv \<noteq> []"
      and cl: "cloneRepository w (project_http_url pl) (source_branch pl) (gitlabToken c) lg1
              = (Inl e, lg2)"
  proof -
    from f ne cl have "reviewRun w decode nts c pl [] = (Inl e, None, lg2)"
      by (simp add: reviewRun_def)
    from reviewAndReport_failed [OF this] getLatestDiffs_log [OF f] cloneRepository_log [OF cl]
    show ?thesis by (auto simp: gate)
  qed
  have assistant: "handler w decode nts cfg tok payload
              = (ReviewFailed e, lg3 @ [PostNote (project_id pl) (iid pl) (failureNote e), Rm dir])
            \<and> filter isNote (snd (handler w decode nts cfg tok payload))
                = [PostNote (project_id pl) (iid pl) (failureNote e)]"
    if f: "getLatestDiffs w (project_id pl) (iid pl) [] = (Inr dv, lg1)" and ne: "diffs dv \<noteq> []"
      and cl: "cloneRepository w (project_http_url pl) (source_branch pl) (gitlabToken c) lg1
              = (Inr dir, lg2)"
      and rv: "reviewMergeRequest w decode
               \<lparr>config = c, repoDir = dir, mrTitle = title pl, mrDescription = description pl,
                mrUrl = url pl, sourceBranch = source_branch pl, targetBranch = target_branch pl,
                diffVersion = dv\<rparr> lg2 = (Inl e, lg3)"
  proof -
    from f ne cl rv have "reviewRun w decode nts c pl [] = (Inl e, Some dir, lg3)"
      by (simp add: reviewRun_def)
    from reviewAndReport_failed [OF this] getLatestDiffs_log [OF f] cloneRepository_log [OF cl]
      reviewMergeRequest_log [OF rv]
    show ?thesis by (auto simp: gate)
  qed
  have status: "statusCode (ReviewFailed e) = 500"
    by simp
  from fetch checkout assistant status failureNote_contains [of e] show ?thesis
    by blast
qed


theorem handler_fatal_error_witness:
  "shouldTriggerReview samplePayload sampleConfig
   \<and> handler (calmWorld\<lparr>versionsAnswer := (\<lambda>lg p m. Inl (js ''GitLab API error: 500''))\<rparr>)
       JSON_parse decimalOfIntegral (Some sampleConfig) (Some (js ''secret'')) (Some samplePayload)
     = (ReviewFailed (js ''GitLab API error: 500''),
        [GetVersions 1 2, PostNote 1 2 (failureNote (js ''GitLab API error: 500''))])
   \<and> postAnswer (failingWhen isNote\<lparr>gitCloneAnswer := (\<lambda>lg c. Some (js ''no access''))\<rparr>)
        [GetVersions 1 2, GetVersionDetail 1 2 9, Mkdtemp,
         GitClone (js ''feature'') (js ''https://gitlab.example.com/g/p.git'') (js ''/tmp/gitlab-review-1''),
         Rm (js ''/tmp/gitlab-review-1'')]
        (PostNote 1 2 (failureNote (js ''Failed to clone repository: no access''))) = Some (js ''boom'')
   \<and> handler (failingWhen isNote\<lparr>gitCloneAnswer := (\<lambda>lg c. Some (js ''no access''))\<rparr>)
       JSON_parse decimalOfIntegral (Some sampleConfig) (Some (js ''secret'')) (Some samplePayload)
     = (ReviewFailed (js ''Failed to clone repository: no access''),
        [GetVersions 1 2, GetVersionDetail 1 2 9, Mkdtemp,
         GitClone (js ''feature'') (js ''https://gitlab.example.com/g/p.git'') (js ''/tmp/gitlab-review-1''),
         Rm (js ''/tmp/gitlab-review-1''),
         PostNote 1 2 (failureNote (js ''Failed to clone repository: no access''))])
   \<and> fst (handler (calmWorld\<lparr>sendAnswer := (\<lambda>lg q. Inl (js ''timed out''))\<rparr>)
       JSON_parse decimalOfIntegral (Some sampleConfig) (Some (js ''secret'')) (Some samplePayload))
     = ReviewFailed (js ''timed out'')
   \<and> filter isNote (snd (handler (calmWorld\<lparr>sendAnswer := (\<lambda>lg q. Inl (js ''timed out''))\<rparr>)
       JSON_parse decimalOfIntegral (Some sampleConfig) (Some (js ''secret'')) (Some samplePayload)))
     = [PostNote 1 2 (failureNote (js ''timed out''))]"
proof -
  let ?wa = "calmWorld\<lparr>versionsAnswer := (\<lambda>lg p m. Inl (js ''GitLab API error: 500''))\<rparr>"
  let ?wb = "failingWhen isNote\<lparr>gitCloneAnswer := (\<lambda>lg c. Some (js ''no access''))\<rparr>"
  let ?wc = "calmWorld\<lparr>sendAnswer := (\<lambda>lg q. Inl (js ''timed out''))\<rparr>"
  let ?lg1 = "[GetVersions 1 2, GetVersionDetail 1 2 9]"
  let ?lg2 = "[GetVersions 1 2, GetVersionDetail 1 2 9, Mkdtemp,
         GitClone (js ''feature'') (js ''https://gitlab.example.com/g/p.git'') (js ''/tmp/gitlab-review-1''),
         Rm (js ''/tmp/gitlab-review-1'')]"
  let ?lg2c = "[GetVersions 1 2, GetVersionDetail 1 2 9, Mkdtemp,
         GitClone (js ''feature'') (js ''https://gitlab.example.com/g/p.git'') (js ''/tmp/gitlab-review-1'')]"
  let ?lg3 = "[GetVersions 1 2, GetVersionDetail 1 2 9, Mkdtemp,
         GitClone (js ''feature'') (js ''https://gitlab.example.com/g/p.git'') (js ''/tmp/gitlab-review-1''),
         CreateSession (js ''gpt-4.1'') (js ''/tmp/gitlab-review-1''),
         SendAndWait (buildDiffPrompt (js ''T'') [] (js ''u'') (js ''feature'') (js ''main'') [sampleFile]),
         StopClient]"
  have g1: "Some sampleConfig = Some sampleConfig" by simp
  have g2: "verifyWebhookToken (Some (js ''secret'')) (gitlabWebhookSecret sampleConfig)"
    by code_simp
  have g3: "Some samplePayload = Some samplePayload" by simp
  have g4: "shouldTriggerReview samplePayload sampleConfig"
    by code_simp
  have ids: "project_id samplePayload = 1" "iid samplePayload = 2"
    by (simp_all add: samplePayload_def)
  have fa: "getLatestDiffs ?wa (project_id samplePayload) (iid samplePayload) []
              = (Inl (js ''GitLab API error: 500''), [GetVersions 1 2])"
    by code_simp
  have fb: "getLatestDiffs ?wb (project_id samplePayload) (iid samplePayload) [] = (Inr sampleDiff, ?lg1)"
    by code_simp
  have fc: "getLatestDiffs ?wc (project_id samplePayload) (iid samplePayload) [] = (Inr sampleDiff, ?lg1)"
    by code_simp
  have ne: "diffs sampleDiff \<noteq> []"
    by (simp add: sampleDiff_def)
  have cb: "cloneRepository ?wb (project_http_url samplePayload) (source_branch samplePayload)
              (gitlabToken sampleConfig) ?lg1
            = (Inl (js ''Failed to clone repository: no access''), ?lg2)"
    by code_simp
  have cc: "cloneRepository ?wc (project_http_url samplePayload) (source_branch samplePayload)
              (gitlabToken sampleConfig) ?lg1
            = (Inr (js ''/tmp/gitlab-review-1''), ?lg2c)"
    by code_simp
  have rc: "reviewMergeRequest ?wc JSON_parse
               \<lparr>config = sampleConfig, repoDir = js ''/tmp/gitlab-review-1'',
                mrTitle = title samplePayload, mrDescription = description samplePayload,
                mrUrl = url samplePayload, sourceBranch = source_branch samplePayload,
                targetBranch = target_branch samplePayload, diffVersion = sampleDiff\<rparr> ?lg2c
            = (Inl (js ''timed out''), ?lg3)"
    by code_simp
  have nb: "postAnswer ?wb ?lg2
              (PostNote 1 2 (failureNote (js ''Failed to clone repository: no access''))) = Some (js ''boom'')"
    by code_simp
  note main = handler_fatal_error [OF g1 g2 g3 g4]
  from main [of ?wa "js ''GitLab API error: 500''" "[GetVersions 1 2]" JSON_parse decimalOfIntegral,
         THEN conjunct1, rule_format, OF fa]
  have ra: "handler ?wa JSON_parse decimalOfIntegral (Some sampleConfig) (Some (js ''secret''))
              (Some samplePayload)
            = (ReviewFailed (js ''GitLab API error: 500''),
               [GetVersions 1 2, PostNote 1 2 (failureNote (js ''GitLab API error: 500''))])"
    by (simp add: ids)
  from main [where w = ?wb and dv = sampleDiff and ?lg1.0 = ?lg1 and ?lg2.0 = ?lg2
              and e = "js ''Failed to clone repository: no access''" and decode = JSON_parse
              and nts = decimalOfIntegral,
         THEN conjunct2, THEN conjunct1, rule_format, OF conjI [OF fb conjI [OF ne cb]]]
  have rb: "handler ?wb JSON_parse decimalOfIntegral (Some sampleConfig) (Some (js ''secret''))
              (Some samplePayload)
            = (ReviewFailed (js ''Failed to clone repository: no access''),
               [GetVersions 1 2, GetVersionDetail 1 2 9, Mkdtemp,
                GitClone (js ''feature'') (js ''https://gitlab.example.com/g/p.git'')
                  (js ''/tmp/gitlab-review-1''),
                Rm (js ''/tmp/gitlab-review-1''),
                PostNote 1 2 (failureNote (js ''Failed to clone repository: no access''))])"
    by (simp add: ids)
  note inst = main [where w = ?wc and dv = sampleDiff and ?lg1.0 = ?lg1 and ?lg2.0 = ?lg2c
              and dir = "js ''/tmp/gitlab-review-1''" and ?lg3.0 = ?lg3
              and e = "js ''timed out''" and decode = JSON_parse and nts = decimalOfIntegral,
         THEN conjunct2, THEN conjunct2, THEN conjunct1, rule_format,
         OF conjI [OF fc conjI [OF ne conjI [OF cc rc]]]]
  have r1: "fst (handler ?wc JSON_parse decimalOfIntegral (Some sampleConfig) (Some (js ''secret''))
              (Some samplePayload)) = ReviewFailed (js ''timed out'')"
    by (simp only: inst [THEN conjunct1] fst_conv)
  have r2: "filter isNote (snd (handler ?wc JSON_parse decimalOfIntegral (Some sampleConfig)
                 (Some (js ''secret'')) (Some samplePayload)))
              = [PostNote 1 2 (failureNote (js ''timed out''))]"
    using inst [THEN conjunct2] by (simp only: ids)
  show ?thesis
    by (intro conjI) (fact g4 ra nb rb r1 r2)+
qed


text \<open>
  C5, as the code has it. In a run that passed the gate and fetched a diff version with
  no files, no clone is made and the assistant is never called. The run posts the note
  \<open>No file changes detected\<close>; when that post succeeds it is the only note of the run
  and the run ends with success (status 200). When that post throws, the \<open>catch\<close>
  block posts the failure notification as a second note and the run ends as failed.
\<close>

theorem handler_no_changes:
  assumes "cfg = Some c" and "verifyWebhookToken tok (gitlabWebhookSecret c)"
    and "payload = Some pl" and "shouldTriggerReview pl c"
    and "getLatestDiffs w (project_id pl) (iid pl) [] = (Inr dv, lg1)"
    and "length (diffs dv) = 0"
  shows
    "(postAnswer w lg1 (PostNote (project_id pl) (iid pl) noChangesNote) = None
        \<longrightarrow> handler w decode nts cfg tok payload
              = (NoDiffsToReview, lg1 @ [PostNote (project_id pl) (iid pl) noChangesNote])
            \<and> filter isNote (snd (handler w decode nts cfg tok payload))
                = [PostNote (project_id pl) (iid pl) noChangesNote]
            \<and> statusCode (fst (handler w decode nts cfg tok payload)) = 200)
     \<and> (postAnswer w lg1 (PostNote (project_id pl) (iid pl) noChangesNote) = Some e
        \<longrightarrow> handler w decode nts cfg tok payload
              = (ReviewFailed e,
                 lg1 @ [PostNote (project_id pl) (iid pl) noChangesNote,
                        PostNote (project_id pl) (iid pl) (failureNote e)]))
     \<and> filter isAssistantCall (snd (handler w decode nts cfg tok payload)) = []"
proof -
  note gate = handler_after_gate [OF assms(1-4), of w decode nts]
  from getLatestDiffs_log [OF assms(5)]
  have quiet: "filter isNote lg1 = []" "filter isAssistantCall lg1 = []"
    by auto
  have run: "reviewRun w decode nts c pl [] =
          (case postAnswer w lg1 (PostNote (project_id pl) (iid pl) noChangesNote) of
             None \<Rightarrow> Inr NoDiffsToReview
           | Some e \<Rightarrow> Inl e,
           None, lg1 @ [PostNote (project_id pl) (iid pl) noChangesNote])"
    using assms(5,6) by (simp add: reviewRun_def postMergeRequestNote_def split: option.splits)
  then have all: "handler w decode nts cfg tok payload =
          (case postAnswer w lg1 (PostNote (project_id pl) (iid pl) noChangesNote) of
             None \<Rightarrow> (NoDiffsToReview, lg1 @ [PostNote (project_id pl) (iid pl) noChangesNote])
           | Some e \<Rightarrow>
               (ReviewFailed e,
                lg1 @ [PostNote (project_id pl) (iid pl) noChangesNote,
                       PostNote (project_id pl) (iid pl) (failureNote e)]))"
    by (simp add: gate reviewAndReport_def postMergeRequestNote_def split: option.splits)
  show ?thesis
    by (cases "postAnswer w lg1 (PostNote (project_id pl) (iid pl) noChangesNote)")
       (simp_all add: all quiet)
qed

theorem handler_no_changes_witness:
  "shouldTriggerReview samplePayload sampleConfig
   \<and> getLatestDiffs (calmWorld\<lparr>detailAnswer := (\<lambda>lg p m v. Inr emptyDiff)\<rparr>) 1 2 []
       = (Inr emptyDiff, [GetVersions 1 2, GetVersionDetail 1 2 9])
   \<and> length (diffs emptyDiff) = 0
   \<and> handler (calmWorld\<lparr>detailAnswer := (\<lambda>lg p m v. Inr emptyDiff)\<rparr>) JSON_parse decimalOfIntegral
        (Some sampleConfig) (Some (js ''secret'')) (Some samplePayload)
       = (NoDiffsToReview, [GetVersions 1 2, GetVersionDetail 1 2 9, PostNote 1 2 noChangesNote])
   \<and> handler (failingWhen isNote\<lparr>detailAnswer := (\<lambda>lg p m v. Inr emptyDiff)\<rparr>) JSON_parse
        decimalOfIntegral (Some sampleConfig) (Some (js ''secret'')) (Some samplePayload)
       = (ReviewFailed (js ''boom''),
          [GetVersions 1 2, GetVersionDetail 1 2 9, PostNote 1 2 noChangesNote,
           PostNote 1 2 (failureNote (js ''boom''))])"
proof -
  let ?w = "calmWorld\<lparr>detailAnswer := (\<lambda>lg p m v. Inr emptyDiff)\<rparr>"
  let ?v = "failingWhen isNote\<lparr>detailAnswer := (\<lambda>lg p m v. Inr emptyDiff)\<rparr>"
  have g1: "Some sampleConfig = Some sampleConfig" by simp
  have g2: "verifyWebhookToken (Some (js ''secret'')) (gitlabWebhookSecret sampleConfig)"
    by code_simp
  have g3: "Some samplePayload = Some samplePayload" by simp
  have g4: "shouldTriggerReview samplePayload sampleConfig"
    by code_simp
  have ids: "project_id samplePayload = 1" "iid samplePayload = 2"
    by (simp_all add: samplePayload_def)
  have f: "getLatestDiffs ?w 1 2 [] = (Inr emptyDiff, [GetVersions 1 2, GetVersionDetail 1 2 9])"
    by code_simp
  then have f': "getLatestDiffs ?w (project_id samplePayload) (iid samplePayload) []
                  = (Inr emptyDiff, [GetVersions 1 2, GetVersionDetail 1 2 9])"
    by (simp only: ids)
  have fv: "getLatestDiffs ?v (project_id samplePayload) (iid samplePayload) []
                  = (Inr emptyDiff, [GetVersions 1 2, GetVersionDetail 1 2 9])"
    by code_simp
  have z: "length (diffs emptyDiff) = 0"
    by (simp add: emptyDiff_def)
  have ok: "postAnswer ?w [GetVersions 1 2, GetVersionDetail 1 2 9]
              (PostNote (project_id samplePayload) (iid samplePayload) noChangesNote) = None"
    by (simp add: calmWorld_def)
  have bad: "postAnswer ?v [GetVersions 1 2, GetVersionDetail 1 2 9]
              (PostNote (project_id samplePayload) (iid samplePayload) noChangesNote)
             = Some (js ''boom'')"
    by (simp add: failingWhen_def)
  note inst = handler_no_changes [OF g1 g2 g3 g4 f' z,
                where decode = JSON_parse and nts = decimalOfIntegral,
                THEN conjunct1, rule_format, OF ok, THEN conjunct1]
  have r: "handler ?w JSON_parse decimalOfIntegral (Some sampleConfig) (Some (js ''secret''))
             (Some samplePayload)
           = (NoDiffsToReview, [GetVersions 1 2, GetVersionDetail 1 2 9, PostNote 1 2 noChangesNote])"
    using inst by (simp add: ids)
  note thrown = handler_no_changes [OF g1 g2 g3 g4 fv z,
                  where e = "js ''boom''" and decode = JSON_parse and nts = decimalOfIntegral,
                  THEN conjunct2, THEN conjunct1, rule_format, OF bad]
  have rv: "handler ?v JSON_parse decimalOfIntegral (Some sampleConfig) (Some (js ''secret''))
              (Some samplePayload)
            = (ReviewFailed (js ''boom''),
               [GetVersions 1 2, GetVersionDetail 1 2 9, PostNote 1 2 noChangesNote,
                PostNote 1 2 (failureNote (js ''boom''))])"
    using thrown by (simp add: ids)
  show ?thesis
    by (intro conjI) (fact g4 f z r rv)+
qed

theorem handler_no_changes_note_failure_counterexample:
  "getLatestDiffs
      (failingWhen (\<lambda>c. c = PostNote 1 2 noChangesNote)\<lparr>detailAnswer := (\<lambda>lg p m v. Inr emptyDiff)\<rparr>)
      1 2 []
     = (Inr emptyDiff, [GetVersions 1 2, GetVersionDetail 1 2 9])
   \<and> diffs emptyDiff = []
   \<and> shouldTriggerReview samplePayload sampleConfig
   \<and> handler
        (failingWhen (\<lambda>c. c = PostNote 1 2 noChangesNote)\<lparr>detailAnswer := (\<lambda>lg p m v. Inr emptyDiff)\<rparr>)
        JSON_parse decimalOfIntegral (Some sampleConfig) (Some (js ''secret'')) (Some samplePayload)
     = (ReviewFailed (js ''boom''),
        [GetVersions 1 2, GetVersionDetail 1 2 9, PostNote 1 2 noChangesNote,
         PostNote 1 2 (failureNote (js ''boom''))])
   \<and> statusCode (ReviewFailed (js ''boom'')) = 500"
  by code_simp

end
